theory Spec2Isabelle
  imports Main "HOL-Library.Word"
begin

unbundle bit_operations_syntax

section \<open>The DryIce RTC driver (second file of src/drivers/input/imx_keypad.c)\<close>

text \<open>
  The driver talks to a memory-mapped unit through \<^verbatim>\<open>readl\<close> and \<^verbatim>\<open>writel\<close>, waits with
  \<^verbatim>\<open>udelay\<close>, asks a clock with \<^verbatim>\<open>get_time_ns\<close> and \<^verbatim>\<open>is_timeout\<close>, and reports through
  \<^verbatim>\<open>dev_warn\<close> and friends. None of these has a body in the driver. The embedding makes every
  such call an event of a trace (oldest event first) and lets an environment answer the
  calls that return a value, as a function of the trace so far. Each driver function
  takes the trace and returns its C return value with the extended trace.
\<close>

type_synonym u32 = "32 word"
type_synonym u64 = "64 word"

subsection \<open>Register offsets and bits\<close>

definition DTCMR :: u32 where "DTCMR = 0x00"
definition DTCLR :: u32 where "DTCLR = 0x04"
definition DCAMR :: u32 where "DCAMR = 0x08"
definition DCALR :: u32 where "DCALR = 0x0c"
definition DCAMR_UNSET :: u32 where "DCAMR_UNSET = 0xFFFFFFFF"
definition DCR :: u32 where "DCR = 0x10"
definition DCR_TDCHL :: u32 where "DCR_TDCHL = push_bit 30 1"
definition DCR_TDCSL :: u32 where "DCR_TDCSL = push_bit 29 1"
definition DCR_KSSL :: u32 where "DCR_KSSL = push_bit 27 1"
definition DCR_MCHL :: u32 where "DCR_MCHL = push_bit 20 1"
definition DCR_MCSL :: u32 where "DCR_MCSL = push_bit 19 1"
definition DCR_TCHL :: u32 where "DCR_TCHL = push_bit 18 1"
definition DCR_TCSL :: u32 where "DCR_TCSL = push_bit 17 1"
definition DCR_FSHL :: u32 where "DCR_FSHL = push_bit 16 1"
definition DCR_TCE :: u32 where "DCR_TCE = push_bit 3 1"
definition DCR_MCE :: u32 where "DCR_MCE = push_bit 2 1"
definition DSR :: u32 where "DSR = 0x14"
definition DSR_WTD :: u32 where "DSR_WTD = push_bit 23 1"
definition DSR_ETBD :: u32 where "DSR_ETBD = push_bit 22 1"
definition DSR_ETAD :: u32 where "DSR_ETAD = push_bit 21 1"
definition DSR_EBD :: u32 where "DSR_EBD = push_bit 20 1"
definition DSR_SAD :: u32 where "DSR_SAD = push_bit 19 1"
definition DSR_TTD :: u32 where "DSR_TTD = push_bit 18 1"
definition DSR_CTD :: u32 where "DSR_CTD = push_bit 17 1"
definition DSR_VTD :: u32 where "DSR_VTD = push_bit 16 1"
definition DSR_WBF :: u32 where "DSR_WBF = push_bit 10 1"
definition DSR_WNF :: u32 where "DSR_WNF = push_bit 9 1"
definition DSR_WCF :: u32 where "DSR_WCF = push_bit 8 1"
definition DSR_WEF :: u32 where "DSR_WEF = push_bit 7 1"
definition DSR_CAF :: u32 where "DSR_CAF = push_bit 4 1"
definition DSR_MCO :: u32 where "DSR_MCO = push_bit 3 1"
definition DSR_TCO :: u32 where "DSR_TCO = push_bit 2 1"
definition DSR_NVF :: u32 where "DSR_NVF = push_bit 1 1"
definition DSR_SVF :: u32 where "DSR_SVF = push_bit 0 1"
definition DIER :: u32 where "DIER = 0x18"
definition DMCR :: u32 where "DMCR = 0x1c"
definition DTCR :: u32 where "DTCR = 0x28"
definition DGPR :: u32 where "DGPR = 0x3c"

text \<open>The tamper-class status bits tested and cleared by the invalid-and-failure handler.\<close>

definition DSR_TAMPER :: u32 where
  "DSR_TAMPER = DSR_WTD OR DSR_ETBD OR DSR_ETAD OR DSR_EBD OR DSR_SAD OR
                DSR_TTD OR DSR_CTD OR DSR_VTD OR DSR_MCO OR DSR_TCO"

text \<open>
  Modelled from the spec: the errno values and \<^verbatim>\<open>MSECOND\<close>, whose headers are not part
  of the driver source. \<^verbatim>\<open>MSECOND\<close> is the timeout of 1 ms in the nanoseconds of
  \<^verbatim>\<open>get_time_ns\<close>. The error kinds are the usual errno values, which the driver returns
  negated: \<^verbatim>\<open>-EPERM\<close> for PermissionDenied, \<^verbatim>\<open>-EIO\<close> for IoTimeout and IoWriteError,
  \<^verbatim>\<open>-ENODEV\<close> for both unrecoverable kinds, \<^verbatim>\<open>-EINVAL\<close> for InvalidArgument. The
  properties below use only that they are distinct and not zero.
\<close>

definition EPERM :: int where "EPERM = 1"
definition EIO :: int where "EIO = 5"
definition ENODEV :: int where "ENODEV = 19"
definition EINVAL :: int where "EINVAL = 22"
definition MSECOND :: u64 where "MSECOND = 1000 * 1000"

subsection \<open>Events and the environment\<close>

datatype loglevel = LOG_EMERG | LOG_CRIT | LOG_ERR | LOG_WARNING | LOG_NOTICE | LOG_DEBUG

datatype logarg = ArgU32 u32 | ArgStr string

text \<open>
  \<open>Writel val reg\<close> is \<^verbatim>\<open>writel(val, ioaddr + reg)\<close>; \<open>Readl reg val\<close> is a \<^verbatim>\<open>readl\<close> or
  \<^verbatim>\<open>__raw_readl\<close> of \<open>reg\<close> that returned \<open>val\<close>; \<open>IsTimeout start off b\<close> is a call
  \<^verbatim>\<open>is_timeout(start, off)\<close> that returned \<open>b\<close>. The last four are the calls of the probe
  routine into the clock, NVMEM and RTC frameworks.
\<close>

datatype event =
    Writel u32 u32
  | Readl u32 u32
  | Udelay nat
  | GetTimeNs u64
  | IsTimeout u64 u64 bool
  | Log loglevel string "logarg list"
  | ClkEnable
  | ClkDisable
  | NvmemRegister
  | RtcRegister

type_synonym trace = "event list"

text \<open>
  The environment: what the unit returns for a read of a register, what the monotonic
  clock shows, and what \<^verbatim>\<open>is_timeout\<close> answers, each after a given trace.
\<close>

record env =
  readl_val :: "trace \<Rightarrow> u32 \<Rightarrow> u32"
  time_ns :: "trace \<Rightarrow> u64"
  timeout :: "trace \<Rightarrow> u64 \<Rightarrow> u64 \<Rightarrow> bool"

definition writel :: "u32 \<Rightarrow> u32 \<Rightarrow> trace \<Rightarrow> trace" where
  "writel val reg t = t @ [Writel val reg]"

definition readl :: "env \<Rightarrow> u32 \<Rightarrow> trace \<Rightarrow> u32 \<times> trace" where
  "readl e reg t = (readl_val e t reg, t @ [Readl reg (readl_val e t reg)])"

definition udelay :: "nat \<Rightarrow> trace \<Rightarrow> trace" where
  "udelay n t = t @ [Udelay n]"

definition get_time_ns :: "env \<Rightarrow> trace \<Rightarrow> u64 \<times> trace" where
  "get_time_ns e t = (time_ns e t, t @ [GetTimeNs (time_ns e t)])"

definition is_timeout :: "env \<Rightarrow> u64 \<Rightarrow> u64 \<Rightarrow> trace \<Rightarrow> bool \<times> trace" where
  "is_timeout e start off t = (timeout e t start off, t @ [IsTimeout start off (timeout e t start off)])"

definition dev_log :: "loglevel \<Rightarrow> string \<Rightarrow> logarg list \<Rightarrow> trace \<Rightarrow> trace" where
  "dev_log lvl fmt args t = t @ [Log lvl fmt args]"

subsection \<open>Writes without confirmation and the recovery procedures\<close>

definition di_write_busy_wait :: "u32 \<Rightarrow> u32 \<Rightarrow> trace \<Rightarrow> trace" where
  "di_write_busy_wait val reg t = udelay 130 (writel val reg t)"

definition what_fmt :: string where
  "what_fmt = ''Please cycle the %s power supply in order to get the DryIce/RTC unit working again''"

definition di_what_is_to_be_done :: "string \<Rightarrow> trace \<Rightarrow> trace" where
  "di_what_is_to_be_done power_supply t = dev_log LOG_EMERG what_fmt [ArgStr power_supply] t"

definition di_handle_failure_state :: "env \<Rightarrow> u32 \<Rightarrow> trace \<Rightarrow> int \<times> trace" where
  "di_handle_failure_state e dsr t =
     (let t1 = dev_log LOG_DEBUG ''DSR register reports: %08X'' [ArgU32 dsr] t;
          (dcr, t2) = readl e DCR t1
      in if dcr AND DCR_FSHL \<noteq> 0
         then (- ENODEV, di_what_is_to_be_done ''battery'' t2)
         else (- ENODEV, di_what_is_to_be_done ''main'' t2))"

definition di_handle_valid_state :: "u32 \<Rightarrow> trace \<Rightarrow> int \<times> trace" where
  "di_handle_valid_state dsr t =
     (let t1 = di_write_busy_wait DCAMR_UNSET DCAMR t;
          t2 = di_write_busy_wait 0 DCALR t1;
          t3 = (if dsr AND DSR_CAF \<noteq> 0 then di_write_busy_wait DSR_CAF DSR t2 else t2)
      in (0, t3))"

text \<open>
  The lock test in the middle of \<^verbatim>\<open>di_handle_invalid_state\<close>: the power supply to cycle
  when the function returns early, \<open>None\<close> when it goes on.
\<close>

definition tc_lock_check :: "u32 \<Rightarrow> string option" where
  "tc_lock_check dcr =
     (if dcr AND DCR_TCE = 0
      then (if dcr AND DCR_TCHL \<noteq> 0 then Some ''battery''
            else if dcr AND DCR_TCSL \<noteq> 0 then Some ''main''
            else None)
      else None)"

definition di_handle_invalid_state :: "env \<Rightarrow> u32 \<Rightarrow> trace \<Rightarrow> int \<times> trace" where
  "di_handle_invalid_state e dsr t =
     (let t1 = di_write_busy_wait 0x00000000 DTCR t;
          t2 = di_write_busy_wait DCR_TDCSL DCR t1;
          (sec, t3) = readl e DTCMR t2;
          t4 = (if sec \<noteq> 0
                then dev_log LOG_WARNING ''The security violation has happened at %u seconds''
                       [ArgU32 sec] t3
                else t3);
          (dcr, t5) = readl e DCR t4
      in case tc_lock_check dcr of
           Some supply \<Rightarrow> (- ENODEV, di_what_is_to_be_done supply t5)
         | None \<Rightarrow>
            (let t6 = di_write_busy_wait DSR_NVF DSR t5;
                 t7 = di_write_busy_wait DSR_TCO DSR t6;
                 t8 = di_write_busy_wait (dcr OR DCR_TCE) DCR t7;
                 t9 = di_write_busy_wait sec DTCMR t8;
                 (dsr', t10) = readl e DSR t9
             in di_handle_valid_state dsr' t10))"

text \<open>
  The lock test at the head of \<^verbatim>\<open>di_handle_invalid_and_failure_state\<close>. The control
  register is read only when a tamper-class status bit is set.
\<close>

definition tdc_lock_check :: "env \<Rightarrow> u32 \<Rightarrow> trace \<Rightarrow> string option \<times> trace" where
  "tdc_lock_check e dsr t =
     (if dsr AND DSR_TAMPER \<noteq> 0
      then (let (dcr, t1) = readl e DCR t
            in if dcr AND DCR_TDCHL \<noteq> 0 then (Some ''battery'', t1)
               else if dcr AND DCR_TDCSL \<noteq> 0 then (Some ''main'', t1)
               else (None, t1))
      else (None, t))"

definition DSR_KEEP :: u32 where
  "DSR_KEEP = DSR_NVF OR DSR_SVF OR DSR_WBF OR DSR_WNF OR DSR_WCF OR DSR_WEF"

definition di_handle_invalid_and_failure_state :: "env \<Rightarrow> u32 \<Rightarrow> trace \<Rightarrow> int \<times> trace" where
  "di_handle_invalid_and_failure_state e dsr t =
     (case tdc_lock_check e dsr t of
        (Some supply, t1) \<Rightarrow> (- ENODEV, di_what_is_to_be_done supply t1)
      | (None, t1) \<Rightarrow>
         (let t2 = di_write_busy_wait 0x00000000 DTCR t1;
              t3 = di_write_busy_wait (dsr AND DSR_TAMPER) DSR t2;
              (dsr1, t4) = readl e DSR t3;
              t5 = (if dsr1 AND NOT DSR_KEEP \<noteq> 0
                    then dev_log LOG_WARNING ''There are still some sources of pain in DSR: %08x!''
                           [ArgU32 (dsr1 AND NOT DSR_KEEP)] t4
                    else t4);
              t6 = di_write_busy_wait DSR_SVF DSR t5;
              (dsr2, t7) = readl e DSR t6
          in if dsr2 AND DSR_SVF \<noteq> 0
             then (- ENODEV,
                   di_what_is_to_be_done ''battery''
                     (dev_log LOG_CRIT
                        ''Cannot clear the security violation flag. We are ending up in an endless loop!''
                        [] t7))
             else di_handle_invalid_state e dsr2 t7))"

definition di_handle_state :: "env \<Rightarrow> trace \<Rightarrow> int \<times> trace" where
  "di_handle_state e t =
     (let (dsr, t1) = readl e DSR t;
          sw = dsr AND (DSR_NVF OR DSR_SVF)
      in if sw = DSR_NVF
         then di_handle_invalid_state e dsr
                (dev_log LOG_WARNING ''Invalid stated unit detected'' [] t1)
         else if sw = DSR_SVF
         then di_handle_failure_state e dsr
                (dev_log LOG_WARNING ''Failure stated unit detected'' [] t1)
         else if sw = (DSR_NVF OR DSR_SVF)
         then di_handle_invalid_and_failure_state e dsr
                (dev_log LOG_WARNING ''Failure+Invalid stated unit detected'' [] t1)
         else di_handle_valid_state dsr
                (dev_log LOG_NOTICE ''Unlocked unit detected'' [] t1))"

subsection \<open>Confirmed writes\<close>

text \<open>
  The \<^verbatim>\<open>for\<close> loop of \<^verbatim>\<open>clear_write_error\<close>, by the number of iterations left.
\<close>

fun clear_write_error_loop :: "env \<Rightarrow> nat \<Rightarrow> trace \<Rightarrow> trace" where
  "clear_write_error_loop e 0 t =
     dev_log LOG_ERR ''ERROR: Cannot clear write-error flag!'' [] t"
| "clear_write_error_loop e (Suc n) t =
     (let (dsr, t1) = readl e DSR t
      in if dsr AND DSR_WEF = 0 then t1
         else clear_write_error_loop e n (udelay 10 t1))"

definition clear_write_error :: "env \<Rightarrow> trace \<Rightarrow> trace" where
  "clear_write_error e t =
     (let t1 = dev_log LOG_WARNING ''WARNING: Register write error!'' [] t;
          t2 = writel DSR_WEF DSR t1
      in clear_write_error_loop e 1000 t2)"

text \<open>
  The \<^verbatim>\<open>while (1)\<close> loop of \<^verbatim>\<open>di_write_wait\<close>. It leaves with \<open>Some dsr\<close> at the
  \<^verbatim>\<open>break\<close> and with \<open>None\<close> at the \<^verbatim>\<open>return -EIO\<close>; where the environment never shows a
  flag and never reports the timeout, the loop does not return and the model has no value.
\<close>

partial_function (option) di_write_wait_loop ::
  "env \<Rightarrow> u64 \<Rightarrow> trace \<Rightarrow> (u32 option \<times> trace) option" where
  "di_write_wait_loop e start t =
     (let (dsr, t1) = readl e DSR t
      in if dsr AND (DSR_WCF OR DSR_WEF) \<noteq> 0 then Some (Some dsr, t1)
         else (let (expired, t2) = is_timeout e start MSECOND t1
               in if expired then Some (None, t2)
                  else di_write_wait_loop e start t2))"

definition di_write_wait :: "env \<Rightarrow> u32 \<Rightarrow> u32 \<Rightarrow> trace \<Rightarrow> (int \<times> trace) option" where
  "di_write_wait e val reg t =
     (let t0 = writel val reg t;
          (start, t1) = get_time_ns e t0
      in case di_write_wait_loop e start t1 of
           None \<Rightarrow> None
         | Some (None, t2) \<Rightarrow> Some (- EIO, t2)
         | Some (Some dsr, t2) \<Rightarrow>
             (if dsr AND DSR_WEF \<noteq> 0 then Some (- EIO, clear_write_error e t2)
              else Some (0, t2)))"

subsection \<open>Time accessor\<close>

text \<open>
  \<^verbatim>\<open>rtc_time_to_tm\<close> and \<^verbatim>\<open>rtc_tm_to_time\<close> belong to the RTC framework. The model of
  \<^verbatim>\<open>dryice_rtc_read_time\<close> returns the seconds it read; the model of
  \<^verbatim>\<open>dryice_rtc_set_time\<close> takes the return value \<open>ret\<close> and the seconds \<open>secs\<close> that
  \<^verbatim>\<open>rtc_tm_to_time\<close> produced.
\<close>

definition dryice_rtc_read_time :: "env \<Rightarrow> trace \<Rightarrow> int \<times> u32 \<times> trace" where
  "dryice_rtc_read_time e t = (let (now, t1) = readl e DTCMR t in (0, now, t1))"

text \<open>The permission test of \<^verbatim>\<open>dryice_rtc_set_time\<close>: the supply named when it refuses.\<close>

definition set_time_lock_check :: "u32 \<Rightarrow> u32 \<Rightarrow> string option" where
  "set_time_lock_check dcr dsr =
     (if dcr AND DCR_TCE = 0 \<or> dsr AND DSR_SVF \<noteq> 0
      then (if dcr AND DCR_TCHL \<noteq> 0 then Some ''battery''
            else if dcr AND DCR_TCSL \<noteq> 0 \<or> dsr AND DSR_SVF \<noteq> 0 then Some ''main''
            else None)
      else None)"

definition dryice_rtc_set_time :: "env \<Rightarrow> int \<Rightarrow> u32 \<Rightarrow> trace \<Rightarrow> (int \<times> trace) option" where
  "dryice_rtc_set_time e ret secs t =
     (if ret \<noteq> 0 then Some (ret, t)
      else
        (let (dcr, t1) = readl e DCR t;
             (dsr, t2) = readl e DSR t1
         in case set_time_lock_check dcr dsr of
              Some supply \<Rightarrow> Some (- EPERM, di_what_is_to_be_done supply t2)
            | None \<Rightarrow>
               (case di_write_wait e 0 DTCLR t2 of
                  None \<Rightarrow> None
                | Some (ret1, t3) \<Rightarrow>
                   if ret1 \<noteq> 0 then Some (ret1, t3)
                   else
                     (case di_write_wait e secs DTCMR t3 of
                        None \<Rightarrow> None
                      | Some (ret2, t4) \<Rightarrow>
                         if ret2 \<noteq> 0 then Some (ret2, t4)
                         else
                           (let (dcr2, t5) = readl e DCR t4
                            in di_write_wait e (dcr2 OR DCR_TCE) DCR t5)))))"

subsection \<open>NVRAM word adapter\<close>

text \<open>
  \<open>val\<close> is the word behind the \<^verbatim>\<open>val\<close> pointer. \<^verbatim>\<open>nvstore_read\<close> returns the word behind
  the pointer at its return: the one passed in, or the one read.
\<close>

definition nvstore_write :: "u32 \<Rightarrow> nat \<Rightarrow> trace \<Rightarrow> int \<times> trace" where
  "nvstore_write val bytes t =
     (if bytes \<noteq> 4 then (0, t)
      else (0, writel val DGPR t))"

definition nvstore_read :: "env \<Rightarrow> u32 \<Rightarrow> nat \<Rightarrow> trace \<Rightarrow> int \<times> u32 \<times> trace" where
  "nvstore_read e val bytes t =
     (if bytes \<noteq> 4 then (0, val, t)
      else (let (v, t1) = readl e DGPR t in (0, v, t1)))"

subsection \<open>Probe\<close>

text \<open>
  What the frameworks answer during the probe: the error of \<^verbatim>\<open>dev_request_mem_resource\<close>
  and of \<^verbatim>\<open>clk_get\<close> when \<^verbatim>\<open>IS_ERR\<close> holds of their result, the return value of
  \<^verbatim>\<open>clk_enable\<close>, whether \<^verbatim>\<open>CONFIG_NVMEM\<close> is enabled, the error of \<^verbatim>\<open>nvmem_register\<close>,
  and the return value of \<^verbatim>\<open>rtc_register\<close>.
\<close>

record probe_env =
  mem_resource_err :: "int option"
  clk_get_err :: "int option"
  clk_enable_ret :: int
  config_nvmem :: bool
  nvmem_register_err :: "int option"
  rtc_register_ret :: int

definition probe_err :: "int \<Rightarrow> trace \<Rightarrow> int \<times> trace" where
  "probe_err ret t = (ret, t @ [ClkDisable])"

definition dryice_rtc_probe :: "env \<Rightarrow> probe_env \<Rightarrow> trace \<Rightarrow> int \<times> trace" where
  "dryice_rtc_probe e pe t =
     (case mem_resource_err pe of
        Some err \<Rightarrow> (err, t)
      | None \<Rightarrow>
         (case clk_get_err pe of
            Some err \<Rightarrow> (err, t)
          | None \<Rightarrow>
             (let t1 = t @ [ClkEnable]
              in if clk_enable_ret pe \<noteq> 0 then (clk_enable_ret pe, t1)
                 else
                   (let t2 = writel 0 DIER t1;
                        (ret, t3) = di_handle_state e t2
                    in if ret \<noteq> 0 then probe_err ret t3
                       else
                         (let t4 = t3 @ [NvmemRegister]
                          in case (if config_nvmem pe then nvmem_register_err pe else None) of
                               Some err \<Rightarrow> probe_err err t4
                             | None \<Rightarrow>
                                (let t5 = t4 @ [RtcRegister]
                                 in if rtc_register_ret pe \<noteq> 0
                                    then probe_err (rtc_register_ret pe) t5
                                    else (0, t5)))))))"

subsection \<open>Observations on traces\<close>

text \<open>The events a call added to the trace it started from.\<close>

definition added :: "trace \<Rightarrow> trace \<Rightarrow> trace" where
  "added t t' = drop (length t) t'"

text \<open>The register writes of a trace, as pairs of value and offset, in order.\<close>

fun writes :: "trace \<Rightarrow> (u32 \<times> u32) list" where
  "writes [] = []"
| "writes (Writel val reg # t) = (val, reg) # writes t"
| "writes (_ # t) = writes t"

text \<open>The number of register accesses (reads and writes) of a trace.\<close>

fun accesses :: "trace \<Rightarrow> nat" where
  "accesses [] = 0"
| "accesses (Writel val reg # t) = Suc (accesses t)"
| "accesses (Readl reg val # t) = Suc (accesses t)"
| "accesses (_ # t) = accesses t"

text \<open>The values read from one register, in order.\<close>

fun reads_of :: "u32 \<Rightarrow> trace \<Rightarrow> u32 list" where
  "reads_of r [] = []"
| "reads_of r (Readl reg val # t) = (if reg = r then val # reads_of r t else reads_of r t)"
| "reads_of r (_ # t) = reads_of r t"

text \<open>The value most recently written to one register, if any.\<close>

fun last_write :: "u32 \<Rightarrow> trace \<Rightarrow> u32 option" where
  "last_write r [] = None"
| "last_write r (Writel val reg # t) =
     (case last_write r t of Some v \<Rightarrow> Some v | None \<Rightarrow> if reg = r then Some val else None)"
| "last_write r (_ # t) = last_write r t"

text \<open>The registrations of the storage and the calendar-time interface, in order.\<close>

fun registrations :: "trace \<Rightarrow> event list" where
  "registrations [] = []"
| "registrations (NvmemRegister # t) = NvmemRegister # registrations t"
| "registrations (RtcRegister # t) = RtcRegister # registrations t"
| "registrations (_ # t) = registrations t"

text \<open>
  The polls of the loop in \<^verbatim>\<open>di_write_wait\<close>, numbered from 0: \<open>idle_poll\<close> is one pass
  through the loop body that neither breaks nor returns, \<open>poll_trace n\<close> the trace at the
  start of poll \<open>n\<close> when no earlier poll left the loop, \<open>poll_dsr n\<close> the status snapshot
  that poll reads, and \<open>poll_expired n\<close> the answer \<^verbatim>\<open>is_timeout\<close> gives after that read.
\<close>

definition idle_poll :: "env \<Rightarrow> u64 \<Rightarrow> trace \<Rightarrow> trace" where
  "idle_poll e start t = snd (is_timeout e start MSECOND (snd (readl e DSR t)))"

definition poll_trace :: "env \<Rightarrow> u64 \<Rightarrow> trace \<Rightarrow> nat \<Rightarrow> trace" where
  "poll_trace e start t n = (idle_poll e start ^^ n) t"

definition poll_dsr :: "env \<Rightarrow> u64 \<Rightarrow> trace \<Rightarrow> nat \<Rightarrow> u32" where
  "poll_dsr e start t n = readl_val e (poll_trace e start t n) DSR"

definition poll_expired :: "env \<Rightarrow> u64 \<Rightarrow> trace \<Rightarrow> nat \<Rightarrow> bool" where
  "poll_expired e start t n =
     timeout e (snd (readl e DSR (poll_trace e start t n))) start MSECOND"



text \<open>
  An environment is responsive when every poll loop, whenever it starts, meets a poll
  that sees a flag or a timeout.
\<close>

definition responsive :: "env \<Rightarrow> bool" where
  "responsive e =
     (\<forall>start t. \<exists>n. poll_dsr e start t n AND (DSR_WCF OR DSR_WEF) \<noteq> 0 \<or> poll_expired e start t n)"

text \<open>
  A confirmed write: the call \<^verbatim>\<open>di_write_wait(val, reg)\<close> started at trace \<open>t\<close> has returned
  \<open>rc\<close> with trace \<open>t'\<close>. It has written the register first and has not read the
  control register. Either it returned 0, wrote nothing else, and its last event is a
  status read that showed the write-complete flag without the write-error flag; or it
  returned \<^verbatim>\<open>-EIO\<close>, having written at most the acknowledge of the write error.
\<close>

definition confirmed_write :: "env \<Rightarrow> u32 \<Rightarrow> u32 \<Rightarrow> trace \<Rightarrow> int \<Rightarrow> trace \<Rightarrow> bool" where
  "confirmed_write e val reg t rc t' =
     (di_write_wait e val reg t = Some (rc, t') \<and>
      (\<exists>evs. t' = t @ Writel val reg # evs \<and> reads_of DCR evs = [] \<and>
         (rc = 0 \<and> writes evs = [] \<and>
            (\<exists>h d. t' = h @ [Readl DSR d] \<and> d = readl_val e h DSR \<and>
               d AND DSR_WCF \<noteq> 0 \<and> d AND DSR_WEF = 0)
          \<or> rc = - EIO \<and> (writes evs = [] \<or> writes evs = [(DSR_WEF, DSR)]))))"

subsection \<open>Vocabulary of the specification\<close>

text \<open>
  The four persistent states and their classification, in the words of the specification:
  a function of the non-valid and the security-violation bit.
\<close>

datatype persistent_state = Valid | Invalid | Failure | InvalidAndFailure

definition classify :: "u32 \<Rightarrow> persistent_state" where
  "classify status =
     (if status AND DSR_NVF \<noteq> 0
      then (if status AND DSR_SVF \<noteq> 0 then InvalidAndFailure else Invalid)
      else (if status AND DSR_SVF \<noteq> 0 then Failure else Valid))"

text \<open>The recovery procedure of each state, with the message the dispatcher logs first.\<close>

fun recovery_procedure :: "persistent_state \<Rightarrow> env \<Rightarrow> u32 \<Rightarrow> trace \<Rightarrow> int \<times> trace" where
  "recovery_procedure Valid e dsr t =
     di_handle_valid_state dsr (dev_log LOG_NOTICE ''Unlocked unit detected'' [] t)"
| "recovery_procedure Invalid e dsr t =
     di_handle_invalid_state e dsr (dev_log LOG_WARNING ''Invalid stated unit detected'' [] t)"
| "recovery_procedure Failure e dsr t =
     di_handle_failure_state e dsr (dev_log LOG_WARNING ''Failure stated unit detected'' [] t)"
| "recovery_procedure InvalidAndFailure e dsr t =
     di_handle_invalid_and_failure_state e dsr
       (dev_log LOG_WARNING ''Failure+Invalid stated unit detected'' [] t)"

subsection \<open>A simulated register bank\<close>

text \<open>
  The effect of the writes of a trace on a bank of registers that store what is written,
  except the status register, whose flags are cleared by writing a one to them (the way
  the driver clears the alarm, overflow, non-valid and write-error flags).
\<close>

fun bank_step :: "(u32 \<Rightarrow> u32) \<Rightarrow> event \<Rightarrow> (u32 \<Rightarrow> u32)" where
  "bank_step b (Writel val reg) =
     (if reg = DSR then b(DSR := b DSR AND NOT val) else b(reg := val))"
| "bank_step b _ = b"

definition bank_after :: "(u32 \<Rightarrow> u32) \<Rightarrow> trace \<Rightarrow> (u32 \<Rightarrow> u32)" where
  "bank_after b t = foldl bank_step b t"

subsection \<open>Scripted environments\<close>

text \<open>
  An environment for concrete runs. The control register reads \<open>dcr\<close>, the seconds
  register \<open>sec\<close>, every other register but the status register 0. The \<open>k\<close>-th read of the
  status register returns the \<open>k\<close>-th entry of \<open>snaps\<close>, and \<open>dflt\<close> once the list is used
  up. \<^verbatim>\<open>is_timeout\<close> answers true from its \<open>n\<close>-th call on (counting from 0); the clock
  stands still.
\<close>

fun dsr_reads :: "trace \<Rightarrow> nat" where
  "dsr_reads [] = 0"
| "dsr_reads (Readl reg val # t) = (if reg = DSR then Suc (dsr_reads t) else dsr_reads t)"
| "dsr_reads (_ # t) = dsr_reads t"

fun timeout_calls :: "trace \<Rightarrow> nat" where
  "timeout_calls [] = 0"
| "timeout_calls (IsTimeout start off b # t) = Suc (timeout_calls t)"
| "timeout_calls (_ # t) = timeout_calls t"

definition script_readl :: "u32 \<Rightarrow> u32 \<Rightarrow> u32 list \<Rightarrow> u32 \<Rightarrow> trace \<Rightarrow> u32 \<Rightarrow> u32" where
  "script_readl dcr sec snaps dflt t reg =
     (if reg = DSR then (if dsr_reads t < length snaps then snaps ! dsr_reads t else dflt)
      else if reg = DCR then dcr
      else if reg = DTCMR then sec
      else 0)"

definition script_timeout :: "nat \<Rightarrow> trace \<Rightarrow> u64 \<Rightarrow> u64 \<Rightarrow> bool" where
  "script_timeout n t start off = (n \<le> timeout_calls t)"

definition script_time :: "trace \<Rightarrow> u64" where
  "script_time t = 0"

definition script_env :: "u32 \<Rightarrow> u32 \<Rightarrow> u32 list \<Rightarrow> u32 \<Rightarrow> nat \<Rightarrow> env" where
  "script_env dcr sec snaps dflt n =
     \<lparr> readl_val = script_readl dcr sec snaps dflt,
       time_ns = script_time,
       timeout = script_timeout n \<rparr>"

text \<open>
  An environment whose reads return the content of the simulated register bank that starts
  as \<open>b\<close>, after the writes of the trace so far.
\<close>

definition bank_env :: "(u32 \<Rightarrow> u32) \<Rightarrow> nat \<Rightarrow> env" where
  "bank_env b n =
     \<lparr> readl_val = bank_after b, time_ns = script_time, timeout = script_timeout n \<rparr>"

text \<open>
  The time-counter-enable bit is software-writable in an environment when every read of
  the control register shows that bit as the last write to the register left it.
\<close>

definition tce_stored :: "env \<Rightarrow> bool" where
  "tce_stored e =
     (\<forall>h v. last_write DCR h = Some v \<longrightarrow> readl_val e h DCR AND DCR_TCE = v AND DCR_TCE)"

text \<open>Frameworks that refuse nothing, with \<^verbatim>\<open>CONFIG_NVMEM\<close> enabled.\<close>

definition probe_ok :: probe_env where
  "probe_ok =
     \<lparr> mem_resource_err = None, clk_get_err = None, clk_enable_ret = 0,
       config_nvmem = True, nvmem_register_err = None, rtc_register_ret = 0 \<rparr>"

section \<open>Properties\<close>

lemmas reg_offsets = DTCMR_def DTCLR_def DCAMR_def DCALR_def DCR_def DSR_def DIER_def
  DMCR_def DTCR_def DGPR_def

lemmas reg_bits = DCAMR_UNSET_def DCR_TDCHL_def DCR_TDCSL_def DCR_KSSL_def DCR_MCHL_def
  DCR_MCSL_def DCR_TCHL_def DCR_TCSL_def DCR_FSHL_def DCR_TCE_def DCR_MCE_def
  DSR_WTD_def DSR_ETBD_def DSR_ETAD_def DSR_EBD_def DSR_SAD_def DSR_TTD_def DSR_CTD_def
  DSR_VTD_def DSR_WBF_def DSR_WNF_def DSR_WCF_def DSR_WEF_def DSR_CAF_def DSR_MCO_def
  DSR_TCO_def DSR_NVF_def DSR_SVF_def DSR_TAMPER_def DSR_KEEP_def

lemmas errno_defs = EPERM_def EIO_def ENODEV_def EINVAL_def

lemmas io_defs = writel_def readl_def udelay_def get_time_ns_def is_timeout_def dev_log_def
  di_write_busy_wait_def di_what_is_to_be_done_def

lemmas script_defs = script_env_def script_readl_def script_timeout_def script_time_def

lemma script_env_sel:
  "readl_val (script_env dcr sec snaps dflt n) = script_readl dcr sec snaps dflt"
  "time_ns (script_env dcr sec snaps dflt n) = script_time"
  "timeout (script_env dcr sec snaps dflt n) = script_timeout n"
  by (simp_all add: script_env_def)

subsection \<open>Traces\<close>

lemma added_append [simp]: "added t (t @ evs) = evs"
  by (simp add: added_def)

lemma added_self [simp]: "added t t = []"
  by (simp add: added_def)

lemma added_Nil [simp]: "added [] t = t"
  by (simp add: added_def)

lemma writes_append [simp]: "writes (xs @ ys) = writes xs @ writes ys"
  by (induction xs rule: writes.induct) simp_all

lemma reads_of_append [simp]: "reads_of r (xs @ ys) = reads_of r xs @ reads_of r ys"
  by (induction r xs rule: reads_of.induct) simp_all

lemma accesses_append [simp]: "accesses (xs @ ys) = accesses xs + accesses ys"
  by (induction xs rule: accesses.induct) simp_all

lemma registrations_append [simp]:
  "registrations (xs @ ys) = registrations xs @ registrations ys"
  by (induction xs rule: registrations.induct) simp_all

lemma bank_after_Nil [simp]: "bank_after b [] = b"
  by (simp add: bank_after_def)

lemma bank_after_Cons [simp]: "bank_after b (x # xs) = bank_after (bank_step b x) xs"
  by (simp add: bank_after_def)

lemma bank_after_append [simp]: "bank_after b (xs @ ys) = bank_after (bank_after b xs) ys"
  by (simp add: bank_after_def)

subsection \<open>Single bits of a register value\<close>

lemma bit_test: "n < 32 \<Longrightarrow> (x AND push_bit n 1 = (0::u32)) = (\<not> bit x n)"
  by (simp add: and_exp_eq_0_iff_not_bit)

lemma nvf_svf_split:
  "(dsr :: u32) AND (push_bit 1 1 OR push_bit 0 1) =
     (if bit dsr 1 then push_bit 1 1 else 0) OR (if bit dsr 0 then push_bit 0 1 else 0)"
  apply (rule bit_eqI)
  apply (simp only: bit_and_iff bit_or_iff bit_push_bit_iff bit_1_iff possible_bit_word
      bit_0_eq split: if_splits)
  apply (auto simp: le_Suc_eq)
  apply (rule ccontr, simp)
  done

lemma sw_nvf: "(dsr AND (DSR_NVF OR DSR_SVF) = DSR_NVF) = (bit dsr 1 \<and> \<not> bit dsr 0)"
  unfolding DSR_NVF_def DSR_SVF_def nvf_svf_split by auto

lemma sw_svf: "(dsr AND (DSR_NVF OR DSR_SVF) = DSR_SVF) = (\<not> bit dsr 1 \<and> bit dsr 0)"
  unfolding DSR_NVF_def DSR_SVF_def nvf_svf_split by auto

lemma sw_both:
  "(dsr AND (DSR_NVF OR DSR_SVF) = (DSR_NVF OR DSR_SVF)) = (bit dsr 1 \<and> bit dsr 0)"
  unfolding DSR_NVF_def DSR_SVF_def nvf_svf_split by auto

lemma sw_none: "(dsr AND (DSR_NVF OR DSR_SVF) = 0) = (\<not> bit dsr 1 \<and> \<not> bit dsr 0)"
  unfolding DSR_NVF_def DSR_SVF_def nvf_svf_split by auto

lemma nvf_bit: "(dsr AND DSR_NVF = 0) = (\<not> bit dsr 1)"
  unfolding DSR_NVF_def by (simp only: bit_test)

lemma svf_bit: "(dsr AND DSR_SVF = 0) = (\<not> bit dsr 0)"
  unfolding DSR_SVF_def by (simp only: bit_test)

lemma classify_bits:
  "classify dsr = (if bit dsr 1 then (if bit dsr 0 then InvalidAndFailure else Invalid)
                   else (if bit dsr 0 then Failure else Valid))"
  by (simp add: classify_def nvf_bit svf_bit)

subsection \<open>State classification and dispatch\<close>

lemma di_handle_state_dispatch:
  "di_handle_state e t =
     recovery_procedure (classify (readl_val e t DSR)) e (readl_val e t DSR)
       (t @ [Readl DSR (readl_val e t DSR)])"
  by (simp add: di_handle_state_def readl_def Let_def sw_nvf sw_svf sw_both classify_bits)

text \<open>
  C4. \<^verbatim>\<open>di_handle_state\<close> reads the status register once and runs the recovery procedure
  of the state that \<open>classify\<close> gives for the value read. \<open>classify\<close> is total, each of the
  four combinations of the non-valid and the security-violation bit gives its own state,
  and flipping any other status bits leaves the state, hence the procedure, unchanged.
\<close>

theorem di_handle_state_classifies:
  "di_handle_state e t =
     recovery_procedure (classify (readl_val e t DSR)) e (readl_val e t DSR)
       (snd (readl e DSR t))
   \<and> (classify dsr = Valid) = (dsr AND DSR_NVF = 0 \<and> dsr AND DSR_SVF = 0)
   \<and> (classify dsr = Invalid) = (dsr AND DSR_NVF \<noteq> 0 \<and> dsr AND DSR_SVF = 0)
   \<and> (classify dsr = Failure) = (dsr AND DSR_NVF = 0 \<and> dsr AND DSR_SVF \<noteq> 0)
   \<and> (classify dsr = InvalidAndFailure) = (dsr AND DSR_NVF \<noteq> 0 \<and> dsr AND DSR_SVF \<noteq> 0)
   \<and> (other AND (DSR_NVF OR DSR_SVF) = 0 \<longrightarrow> classify (dsr XOR other) = classify dsr)"
proof -
  have a: "di_handle_state e t =
     recovery_procedure (classify (readl_val e t DSR)) e (readl_val e t DSR)
       (snd (readl e DSR t))"
    by (simp add: di_handle_state_dispatch readl_def)
  have b: "(classify dsr = Valid) = (dsr AND DSR_NVF = 0 \<and> dsr AND DSR_SVF = 0)"
    "(classify dsr = Invalid) = (dsr AND DSR_NVF \<noteq> 0 \<and> dsr AND DSR_SVF = 0)"
    "(classify dsr = Failure) = (dsr AND DSR_NVF = 0 \<and> dsr AND DSR_SVF \<noteq> 0)"
    "(classify dsr = InvalidAndFailure) = (dsr AND DSR_NVF \<noteq> 0 \<and> dsr AND DSR_SVF \<noteq> 0)"
    by (simp_all add: classify_def)
  have c: "classify (dsr XOR other) = classify dsr" if "other AND (DSR_NVF OR DSR_SVF) = 0"
  proof -
    from that have "\<not> bit other 1" "\<not> bit other 0" by (simp_all add: sw_none)
    then show ?thesis by (simp add: classify_bits bit_xor_iff)
  qed
  from a b c show ?thesis by blast
qed

theorem di_handle_state_classifies_witness:
  "DSR_CAF AND (DSR_NVF OR DSR_SVF) = 0
   \<and> classify (DSR_SVF XOR DSR_CAF) = Failure
   \<and> di_handle_state (script_env 0 0 [] (DSR_SVF XOR DSR_CAF) 0) [] =
       di_handle_failure_state (script_env 0 0 [] (DSR_SVF XOR DSR_CAF) 0) (DSR_SVF XOR DSR_CAF)
         [Readl DSR (DSR_SVF XOR DSR_CAF), Log LOG_WARNING ''Failure stated unit detected'' []]"
  using di_handle_state_classifies
    [of "script_env 0 0 [] (DSR_SVF XOR DSR_CAF) 0" "[]" DSR_SVF DSR_CAF]
  by (simp add: reg_bits script_defs classify_def dev_log_def readl_def)

subsection \<open>The recovery procedures\<close>

lemma di_handle_valid_state_trace:
  "di_handle_valid_state dsr t =
     (0, t @ [Writel DCAMR_UNSET DCAMR, Udelay 130, Writel 0 DCALR, Udelay 130] @
           (if dsr AND DSR_CAF \<noteq> 0 then [Writel DSR_CAF DSR, Udelay 130] else []))"
  by (simp add: di_handle_valid_state_def Let_def io_defs)

text \<open>
  C8. \<^verbatim>\<open>di_handle_valid_state\<close> returns 0 for every status value it is given. It writes
  the sentinel \<^verbatim>\<open>DCAMR_UNSET\<close> (all ones) to the alarm-compare register \<^verbatim>\<open>DCAMR\<close>, zero
  to \<^verbatim>\<open>DCALR\<close>, and the clock-alarm flag to the status register exactly when the flag is
  set in the status value given. On a register bank that stores writes and clears status
  flags written as one, \<^verbatim>\<open>DCAMR\<close> holds all ones afterwards, and the clock-alarm flag is
  clear when the status value given was the one of the bank.
\<close>

theorem handle_valid_disarms_alarm:
  "fst (di_handle_valid_state dsr t) = 0
   \<and> writes (added t (snd (di_handle_valid_state dsr t))) =
       [(DCAMR_UNSET, DCAMR), (0, DCALR)] @
       (if dsr AND DSR_CAF \<noteq> 0 then [(DSR_CAF, DSR)] else [])
   \<and> bank_after b (added t (snd (di_handle_valid_state dsr t))) DCAMR = - 1
   \<and> (b DSR = dsr \<longrightarrow>
        bank_after b (added t (snd (di_handle_valid_state dsr t))) DSR AND DSR_CAF = 0)"
  by (simp add: di_handle_valid_state_trace reg_offsets DCAMR_UNSET_def and.assoc)

theorem handle_valid_disarms_alarm_witness:
  "script_readl 0 0 [] (DSR_CAF OR DSR_WCF) [] DSR = DSR_CAF OR DSR_WCF
   \<and> bank_after (script_readl 0 0 [] (DSR_CAF OR DSR_WCF) [])
        (added [] (snd (di_handle_valid_state (DSR_CAF OR DSR_WCF) []))) DSR = DSR_WCF
   \<and> DSR_WCF AND DSR_CAF = 0"
  using handle_valid_disarms_alarm
    [of "DSR_CAF OR DSR_WCF" "[]" "script_readl 0 0 [] (DSR_CAF OR DSR_WCF) []"]
  by (simp add: script_defs di_handle_valid_state_trace reg_bits reg_offsets)

text \<open>
  C6, as the code has it. \<^verbatim>\<open>di_handle_failure_state\<close> returns \<^verbatim>\<open>-ENODEV\<close> in both
  branches, never 0. It reads the control register once and writes no register. The two
  cases differ only in the diagnostic: it names the battery when the failure-state hard
  lock is set in the value read, the main supply otherwise.
\<close>

theorem handle_failure_returns_enodev:
  "(let dcr = readl_val e (dev_log LOG_DEBUG ''DSR register reports: %08X'' [ArgU32 dsr] t) DCR;
        r = di_handle_failure_state e dsr t
    in fst r = - ENODEV \<and> fst r \<noteq> 0
       \<and> added t (snd r) =
           [Log LOG_DEBUG ''DSR register reports: %08X'' [ArgU32 dsr], Readl DCR dcr,
            Log LOG_EMERG what_fmt [ArgStr (if dcr AND DCR_FSHL \<noteq> 0 then ''battery'' else ''main'')]]
       \<and> writes (added t (snd r)) = [])"
  by (simp add: di_handle_failure_state_def Let_def io_defs ENODEV_def)

theorem handle_failure_returns_enodev_witness:
  "added [] (snd (di_handle_failure_state (script_env DCR_FSHL 0 [] DSR_SVF 0) DSR_SVF [])) =
     [Log LOG_DEBUG ''DSR register reports: %08X'' [ArgU32 DSR_SVF], Readl DCR DCR_FSHL,
      Log LOG_EMERG what_fmt [ArgStr ''battery'']]
   \<and> added [] (snd (di_handle_failure_state (script_env DCR_TCE 0 [] DSR_SVF 0) DSR_SVF [])) =
     [Log LOG_DEBUG ''DSR register reports: %08X'' [ArgU32 DSR_SVF], Readl DCR DCR_TCE,
      Log LOG_EMERG what_fmt [ArgStr ''main'']]
   \<and> fst (di_handle_failure_state (script_env DCR_FSHL 0 [] DSR_SVF 0) DSR_SVF []) = - ENODEV"
  using handle_failure_returns_enodev [of "script_env DCR_FSHL 0 [] DSR_SVF 0" DSR_SVF "[]"]
    handle_failure_returns_enodev [of "script_env DCR_TCE 0 [] DSR_SVF 0" DSR_SVF "[]"]
  by (simp add: Let_def script_defs reg_bits reg_offsets dev_log_def)

text \<open>
  The claim as stated fails: the value returned with the hard lock set is the value
  returned with the hard lock clear.
\<close>

theorem handle_failure_same_return_counterexample:
  "DCR_FSHL AND DCR_FSHL \<noteq> 0 \<and> DCR_TCE AND DCR_FSHL = 0
   \<and> fst (di_handle_failure_state (script_env DCR_FSHL 0 [] DSR_SVF 0) DSR_SVF []) =
     fst (di_handle_failure_state (script_env DCR_TCE 0 [] DSR_SVF 0) DSR_SVF [])"
  by (simp add: di_handle_failure_state_def Let_def io_defs script_defs reg_bits reg_offsets)

subsection \<open>The NVRAM word adapter\<close>

text \<open>
  C2, as the code has it. For every length other than 4 both \<^verbatim>\<open>nvstore_write\<close> and
  \<^verbatim>\<open>nvstore_read\<close> return 0, the value of success, touch no register and leave the
  caller's buffer as it was; for length 4 they return 0 after exactly one access to the
  general-purpose register, a plain \<^verbatim>\<open>writel\<close> or \<^verbatim>\<open>readl\<close> with no confirmation.
\<close>

theorem nvstore_length_guard:
  "(bytes \<noteq> 4 \<longrightarrow>
      nvstore_write val bytes t = (0, t) \<and> nvstore_read e buf bytes t = (0, buf, t))
   \<and> (bytes = 4 \<longrightarrow>
      nvstore_write val bytes t = (0, t @ [Writel val DGPR]) \<and>
      nvstore_read e buf bytes t =
        (0, readl_val e t DGPR, t @ [Readl DGPR (readl_val e t DGPR)]))
   \<and> accesses (added t (snd (nvstore_write val bytes t))) = (if bytes = 4 then 1 else 0)
   \<and> accesses (added t (snd (snd (nvstore_read e buf bytes t)))) = (if bytes = 4 then 1 else 0)"
  by (simp add: nvstore_write_def nvstore_read_def io_defs)

theorem nvstore_length_guard_witness:
  "(3::nat) \<noteq> 4
   \<and> nvstore_write 7 3 [] = (0, [])
   \<and> nvstore_read (script_env 0 0 [] 0 0) 9 3 [] = (0, 9, [])
   \<and> nvstore_write 7 4 [] = (0, [Writel 7 DGPR])
   \<and> nvstore_read (script_env 0 0 [] 0 0) 9 4 [] = (0, 0, [Readl DGPR 0])"
  using nvstore_length_guard [of 3 7 "[]" "script_env 0 0 [] 0 0" 9]
    nvstore_length_guard [of 4 7 "[]" "script_env 0 0 [] 0 0" 9]
  by (simp add: script_defs reg_offsets)

text \<open>
  The claim as stated fails: a write and a read of three bytes return 0, not
  \<^verbatim>\<open>-EINVAL\<close>.
\<close>

theorem nvstore_wrong_length_counterexample:
  "fst (nvstore_write 7 3 []) \<noteq> - EINVAL
   \<and> fst (nvstore_read (script_env 0 0 [] 0 0) 9 3 []) \<noteq> - EINVAL"
  by (simp add: nvstore_write_def nvstore_read_def EINVAL_def)

subsection \<open>Probe\<close>

lemma registrations_valid [simp]:
  "registrations (snd (di_handle_valid_state dsr t)) = registrations t"
  by (simp add: di_handle_valid_state_trace)

lemma registrations_failure [simp]:
  "registrations (snd (di_handle_failure_state e dsr t)) = registrations t"
  by (simp add: di_handle_failure_state_def Let_def io_defs)

lemma registrations_invalid [simp]:
  "registrations (snd (di_handle_invalid_state e dsr t)) = registrations t"
  by (simp add: di_handle_invalid_state_def Let_def io_defs split: option.splits)

lemma registrations_invalid_and_failure [simp]:
  "registrations (snd (di_handle_invalid_and_failure_state e dsr t)) = registrations t"
  by (simp add: di_handle_invalid_and_failure_state_def tdc_lock_check_def Let_def io_defs
      split: option.splits prod.splits)

lemma registrations_state [simp]:
  "registrations (snd (di_handle_state e t)) = registrations t"
  by (simp add: di_handle_state_def Let_def io_defs)

text \<open>
  C9. When the call of \<^verbatim>\<open>di_handle_state\<close> in \<^verbatim>\<open>dryice_rtc_probe\<close> returns an error, the
  probe registers neither interface, passes the error on and disables the clock. Whenever
  the probe registers anything, that call has returned 0 and the registrations follow it,
  the storage interface first.
\<close>

theorem probe_registers_after_recovery:
  "(fst (di_handle_state e (writel 0 DIER (t @ [ClkEnable]))) \<noteq> 0 \<longrightarrow>
      registrations (snd (dryice_rtc_probe e pe t)) = registrations t)
   \<and> (registrations (snd (dryice_rtc_probe e pe t)) \<noteq> registrations t \<longrightarrow>
        fst (di_handle_state e (writel 0 DIER (t @ [ClkEnable]))) = 0 \<and>
        (\<exists>post. snd (dryice_rtc_probe e pe t) =
                  snd (di_handle_state e (writel 0 DIER (t @ [ClkEnable]))) @
                  NvmemRegister # post \<and>
                registrations (snd (dryice_rtc_probe e pe t)) =
                  registrations t @ NvmemRegister # registrations post))
   \<and> (mem_resource_err pe = None \<and> clk_get_err pe = None \<and> clk_enable_ret pe = 0 \<and>
       fst (di_handle_state e (writel 0 DIER (t @ [ClkEnable]))) \<noteq> 0 \<longrightarrow>
        dryice_rtc_probe e pe t =
          (fst (di_handle_state e (writel 0 DIER (t @ [ClkEnable]))),
           snd (di_handle_state e (writel 0 DIER (t @ [ClkEnable]))) @ [ClkDisable]))"
  by (cases "di_handle_state e (writel 0 DIER (t @ [ClkEnable]))")
     (use registrations_state [of e "writel 0 DIER (t @ [ClkEnable])"] in
       \<open>auto simp: dryice_rtc_probe_def probe_err_def Let_def writel_def
          split: option.splits prod.splits if_splits\<close>)

theorem probe_registers_after_recovery_witness:
  "fst (di_handle_state (script_env DCR_FSHL 0 [] DSR_SVF 0) (writel 0 DIER ([] @ [ClkEnable]))) \<noteq> 0
   \<and> registrations (snd (dryice_rtc_probe (script_env DCR_FSHL 0 [] DSR_SVF 0) probe_ok [])) = []
   \<and> fst (di_handle_state (script_env DCR_TCE 0 [] 0 0) (writel 0 DIER ([] @ [ClkEnable]))) = 0
   \<and> registrations (snd (dryice_rtc_probe (script_env DCR_TCE 0 [] 0 0) probe_ok [])) =
       [NvmemRegister, RtcRegister]"
  using probe_registers_after_recovery [of "script_env DCR_FSHL 0 [] DSR_SVF 0" "[]" probe_ok]
    probe_registers_after_recovery [of "script_env DCR_TCE 0 [] 0 0" "[]" probe_ok]
  by (simp add: dryice_rtc_probe_def probe_ok_def probe_err_def di_handle_state_def
      di_handle_failure_state_def di_handle_valid_state_trace Let_def io_defs script_defs
      reg_bits reg_offsets errno_defs)

subsection \<open>Confirmed writes\<close>

lemma loop_break:
  "readl_val e t DSR AND (DSR_WCF OR DSR_WEF) \<noteq> 0 \<Longrightarrow>
   di_write_wait_loop e start t =
     Some (Some (readl_val e t DSR), t @ [Readl DSR (readl_val e t DSR)])"
  by (subst di_write_wait_loop.simps) (simp add: readl_def)

lemma loop_expire:
  "readl_val e t DSR AND (DSR_WCF OR DSR_WEF) = 0 \<Longrightarrow>
   timeout e (t @ [Readl DSR (readl_val e t DSR)]) start MSECOND \<Longrightarrow>
   di_write_wait_loop e start t =
     Some (None, t @ [Readl DSR (readl_val e t DSR), IsTimeout start MSECOND True])"
  by (subst di_write_wait_loop.simps) (simp add: readl_def is_timeout_def)

lemma loop_idle:
  "readl_val e t DSR AND (DSR_WCF OR DSR_WEF) = 0 \<Longrightarrow>
   \<not> timeout e (t @ [Readl DSR (readl_val e t DSR)]) start MSECOND \<Longrightarrow>
   di_write_wait_loop e start t = di_write_wait_loop e start (idle_poll e start t)"
  by (subst di_write_wait_loop.simps) (simp add: readl_def is_timeout_def idle_poll_def)


lemma poll_trace_0 [simp]: "poll_trace e start t 0 = t"
  by (simp add: poll_trace_def)


lemma loop_terminates:
  assumes "poll_dsr e start t n AND (DSR_WCF OR DSR_WEF) \<noteq> 0 \<or> poll_expired e start t n"
  shows "di_write_wait_loop e start t \<noteq> None"
  using assms
proof (induction n arbitrary: t)
  case 0
  then show ?case
    by (subst di_write_wait_loop.simps) (auto simp: poll_dsr_def poll_expired_def readl_def is_timeout_def)
next
  case (Suc n)
  show ?case
  proof (cases "readl_val e t DSR AND (DSR_WCF OR DSR_WEF) = 0 \<and> \<not> timeout e (t @ [Readl DSR (readl_val e t DSR)]) start MSECOND")
    case True
    then have "di_write_wait_loop e start t = di_write_wait_loop e start (idle_poll e start t)"
      by (intro loop_idle) simp_all
    moreover have "poll_trace e start t (Suc n) = poll_trace e start (idle_poll e start t) n"
      by (simp add: poll_trace_def funpow_swap1)
    ultimately show ?thesis
      using Suc.IH [of "idle_poll e start t"] Suc.prems
      by (simp add: poll_dsr_def poll_expired_def)
  next
    case False
    then show ?thesis
      by (subst di_write_wait_loop.simps) (auto simp: readl_def is_timeout_def)
  qed
qed


lemma flags_split:
  "(dsr AND (DSR_WCF OR DSR_WEF) = 0) = (dsr AND DSR_WCF = 0 \<and> dsr AND DSR_WEF = 0)"
  by (simp add: bit.conj_disj_distrib or_eq_0_iff)

lemma loop_result:
  assumes "di_write_wait_loop e start t = Some y"
  shows "\<exists>pre dsr. writes pre = [] \<and> reads_of DCR pre = [] \<and>
     dsr = readl_val e (t @ pre) DSR \<and>
     (y = (Some dsr, t @ pre @ [Readl DSR dsr]) \<and> dsr AND (DSR_WCF OR DSR_WEF) \<noteq> 0
      \<or> y = (None, t @ pre @ [Readl DSR dsr, IsTimeout start MSECOND True]) \<and>
        dsr AND (DSR_WCF OR DSR_WEF) = 0)"
  using assms
proof (induction e start t y rule: di_write_wait_loop.raw_induct [rotated 1, consumes 1])
  case (1 loop e start t y)
  show ?case
  proof (cases "readl_val e t DSR AND (DSR_WCF OR DSR_WEF) \<noteq> 0")
    case True
    with 1(2) have "y = (Some (readl_val e t DSR), t @ [] @ [Readl DSR (readl_val e t DSR)])"
      by (simp add: readl_def)
    with True show ?thesis by (intro exI [of _ "[]"]) simp
  next
    case noflag: False
    show ?thesis
    proof (cases "timeout e (t @ [Readl DSR (readl_val e t DSR)]) start MSECOND")
      case True
      with noflag 1(2) have "y = (None, t @ [] @ [Readl DSR (readl_val e t DSR), IsTimeout start MSECOND True])"
        by (simp add: readl_def is_timeout_def)
      with noflag show ?thesis by (intro exI [of _ "[]"]) simp
    next
      case False
      with noflag 1(2) have "loop e start (idle_poll e start t) = Some y"
        by (simp add: readl_def is_timeout_def idle_poll_def)
      from 1(1) [OF this] obtain pre dsr where
        p: "writes pre = []" "reads_of DCR pre = []"
          "dsr = readl_val e (idle_poll e start t @ pre) DSR"
          "y = (Some dsr, idle_poll e start t @ pre @ [Readl DSR dsr]) \<and> dsr AND (DSR_WCF OR DSR_WEF) \<noteq> 0
           \<or> y = (None, idle_poll e start t @ pre @ [Readl DSR dsr, IsTimeout start MSECOND True]) \<and>
             dsr AND (DSR_WCF OR DSR_WEF) = 0"
        by blast
      have ip: "idle_poll e start t = t @ [Readl DSR (readl_val e t DSR), IsTimeout start MSECOND False]"
        using False by (simp add: idle_poll_def readl_def is_timeout_def)
      show ?thesis
        using p unfolding ip
        by (intro exI [of _ "[Readl DSR (readl_val e t DSR), IsTimeout start MSECOND False] @ pre"]
            exI [of _ dsr]) (auto simp: reg_offsets)
    qed
  qed
qed

lemma clear_write_error_loop_trace:
  "\<exists>evs. clear_write_error_loop e n t = t @ evs \<and> writes evs = [] \<and> reads_of DCR evs = []"
proof (induction n arbitrary: t)
  case 0
  show ?case by (simp add: dev_log_def)
next
  case (Suc n)
  show ?case
  proof (cases "readl_val e t DSR AND DSR_WEF = 0")
    case True
    then show ?thesis by (simp add: readl_def reg_offsets)
  next
    case False
    from Suc [of "udelay 10 (t @ [Readl DSR (readl_val e t DSR)])"] obtain evs where
      "clear_write_error_loop e n (udelay 10 (t @ [Readl DSR (readl_val e t DSR)])) =
         udelay 10 (t @ [Readl DSR (readl_val e t DSR)]) @ evs" "writes evs = []"
      "reads_of DCR evs = []"
      by blast
    with False show ?thesis by (simp add: readl_def udelay_def reg_offsets)
  qed
qed

lemma clear_write_error_trace:
  "\<exists>evs. clear_write_error e t = t @ evs \<and> writes evs = [(DSR_WEF, DSR)] \<and>
     reads_of DCR evs = []"
proof -
  obtain evs where
    "clear_write_error e t =
       (writel DSR_WEF DSR (dev_log LOG_WARNING ''WARNING: Register write error!'' [] t)) @ evs"
    "writes evs = []" "reads_of DCR evs = []"
    using clear_write_error_loop_trace
      [of e 1000 "writel DSR_WEF DSR (dev_log LOG_WARNING ''WARNING: Register write error!'' [] t)"]
    by (auto simp: clear_write_error_def Let_def)
  then show ?thesis by (simp add: writel_def dev_log_def)
qed

text \<open>What a returning confirmed write has done.\<close>

lemma di_write_wait_result:
  assumes "di_write_wait e val reg t = Some (rc, t')"
  shows "\<exists>evs. t' = t @ Writel val reg # evs \<and> reads_of DCR evs = [] \<and>
           (rc = 0 \<and> writes evs = [] \<or>
            rc = - EIO \<and> (writes evs = [] \<or> writes evs = [(DSR_WEF, DSR)]))"
proof -
  let ?t1 = "t @ [Writel val reg, GetTimeNs (time_ns e (t @ [Writel val reg]))]"
  let ?s = "time_ns e (t @ [Writel val reg])"
  from assms obtain y where y: "di_write_wait_loop e ?s ?t1 = Some y"
    by (auto simp: di_write_wait_def Let_def writel_def get_time_ns_def split: option.splits)
  from loop_result [OF y] obtain pre dsr where
    p: "writes pre = []" "reads_of DCR pre = []"
      "y = (Some dsr, ?t1 @ pre @ [Readl DSR dsr]) \<and> dsr AND (DSR_WCF OR DSR_WEF) \<noteq> 0
       \<or> y = (None, ?t1 @ pre @ [Readl DSR dsr, IsTimeout ?s MSECOND True]) \<and>
         dsr AND (DSR_WCF OR DSR_WEF) = 0"
    by blast
  from p(3) show ?thesis
  proof
    assume a: "y = (Some dsr, ?t1 @ pre @ [Readl DSR dsr]) \<and> dsr AND (DSR_WCF OR DSR_WEF) \<noteq> 0"
    show ?thesis
    proof (cases "dsr AND DSR_WEF \<noteq> 0")
      case True
      obtain evs where "clear_write_error e (?t1 @ pre @ [Readl DSR dsr]) = (?t1 @ pre @ [Readl DSR dsr]) @ evs"
        "writes evs = [(DSR_WEF, DSR)]" "reads_of DCR evs = []"
        using clear_write_error_trace by blast
      with assms y a True p(1,2) show ?thesis
        by (auto simp: di_write_wait_def Let_def writel_def get_time_ns_def reg_offsets)
    next
      case False
      with assms y a p(1,2) show ?thesis
        by (auto simp: di_write_wait_def Let_def writel_def get_time_ns_def reg_offsets)
    qed
  next
    assume "y = (None, ?t1 @ pre @ [Readl DSR dsr, IsTimeout ?s MSECOND True]) \<and>
         dsr AND (DSR_WCF OR DSR_WEF) = 0"
    with assms y p(1,2) show ?thesis
      by (auto simp: di_write_wait_def Let_def writel_def get_time_ns_def reg_offsets)
  qed
qed

lemma di_write_wait_success:
  assumes "di_write_wait e val reg t = Some (0, t')"
  shows "\<exists>h dsr. t' = h @ [Readl DSR dsr] \<and> dsr = readl_val e h DSR \<and>
           dsr AND DSR_WCF \<noteq> 0 \<and> dsr AND DSR_WEF = 0"
proof -
  let ?t1 = "t @ [Writel val reg, GetTimeNs (time_ns e (t @ [Writel val reg]))]"
  let ?s = "time_ns e (t @ [Writel val reg])"
  from assms obtain y where y: "di_write_wait_loop e ?s ?t1 = Some y"
    by (auto simp: di_write_wait_def Let_def writel_def get_time_ns_def split: option.splits)
  from loop_result [OF y] obtain pre dsr where
    p: "dsr = readl_val e (?t1 @ pre) DSR"
      "y = (Some dsr, ?t1 @ pre @ [Readl DSR dsr]) \<and> dsr AND (DSR_WCF OR DSR_WEF) \<noteq> 0
       \<or> y = (None, ?t1 @ pre @ [Readl DSR dsr, IsTimeout ?s MSECOND True]) \<and>
         dsr AND (DSR_WCF OR DSR_WEF) = 0"
    by blast
  from assms y p(2) have
    "t' = (?t1 @ pre) @ [Readl DSR dsr] \<and> dsr AND (DSR_WCF OR DSR_WEF) \<noteq> 0 \<and> dsr AND DSR_WEF = 0"
    by (auto simp: di_write_wait_def Let_def writel_def get_time_ns_def EIO_def split: if_splits)
  with p(1) show ?thesis
    by (intro exI [of _ "?t1 @ pre"] exI [of _ dsr]) (auto simp: flags_split)
qed

lemma di_write_wait_terminates:
  "responsive e \<Longrightarrow> di_write_wait e val reg t \<noteq> None"
proof -
  assume r: "responsive e"
  let ?t1 = "t @ [Writel val reg, GetTimeNs (time_ns e (t @ [Writel val reg]))]"
  let ?s = "time_ns e (t @ [Writel val reg])"
  from r obtain n where
    "poll_dsr e ?s ?t1 n AND (DSR_WCF OR DSR_WEF) \<noteq> 0 \<or> poll_expired e ?s ?t1 n"
    unfolding responsive_def by blast
  then have "di_write_wait_loop e ?s ?t1 \<noteq> None" by (rule loop_terminates)
  then show ?thesis
    by (auto simp: di_write_wait_def Let_def writel_def get_time_ns_def split: option.splits)
qed








subsection \<open>The time accessor\<close>

lemma set_time_refused:
  assumes "set_time_lock_check (readl_val e t DCR) (readl_val e (t @ [Readl DCR (readl_val e t DCR)]) DSR) = Some supply"
  shows "dryice_rtc_set_time e 0 secs t =
      Some (- EPERM, t @ [Readl DCR (readl_val e t DCR),
                          Readl DSR (readl_val e (t @ [Readl DCR (readl_val e t DCR)]) DSR),
                          Log LOG_EMERG what_fmt [ArgStr supply]])"
  using assms by (simp add: dryice_rtc_set_time_def Let_def io_defs)

lemma set_time_permitted:
  assumes "set_time_lock_check (readl_val e t DCR) (readl_val e (t @ [Readl DCR (readl_val e t DCR)]) DSR) = None"
  shows "dryice_rtc_set_time e 0 secs t =
     (case di_write_wait e 0 DTCLR
             (t @ [Readl DCR (readl_val e t DCR),
                   Readl DSR (readl_val e (t @ [Readl DCR (readl_val e t DCR)]) DSR)]) of
        None \<Rightarrow> None
      | Some (ret1, t3) \<Rightarrow>
         if ret1 \<noteq> 0 then Some (ret1, t3)
         else
           (case di_write_wait e secs DTCMR t3 of
              None \<Rightarrow> None
            | Some (ret2, t4) \<Rightarrow>
               if ret2 \<noteq> 0 then Some (ret2, t4)
               else di_write_wait e (readl_val e t4 DCR OR DCR_TCE) DCR
                      (t4 @ [Readl DCR (readl_val e t4 DCR)])))"
  using assms by (auto simp: dryice_rtc_set_time_def Let_def io_defs split: option.splits)

lemma set_time_not_eperm:
  assumes "set_time_lock_check (readl_val e t DCR) (readl_val e (t @ [Readl DCR (readl_val e t DCR)]) DSR) = None"
  shows "dryice_rtc_set_time e 0 secs t \<noteq> Some (- EPERM, t')"
proof
  assume a: "dryice_rtc_set_time e 0 secs t = Some (- EPERM, t')"
  have ne: "rc \<noteq> - EPERM" if "di_write_wait e v r h = Some (rc, h')" for v r h rc h'
    using di_write_wait_result [OF that] by (auto simp: errno_defs)
  from a show False
    unfolding set_time_permitted [OF assms]
    by (auto split: option.splits prod.splits if_splits dest: ne)
qed

lemma set_time_lock_check_iff:
  "(set_time_lock_check dcr dsr \<noteq> None) =
     (dsr AND DSR_SVF \<noteq> 0 \<or> dcr AND DCR_TCE = 0 \<and> (dcr AND DCR_TCHL \<noteq> 0 \<or> dcr AND DCR_TCSL \<noteq> 0))"
  by (auto simp: set_time_lock_check_def)

text \<open>
  C1, as the code has it. \<^verbatim>\<open>dryice_rtc_set_time\<close> returns \<^verbatim>\<open>-EPERM\<close> exactly when the
  security-violation flag is set in the status value it read, or the time-counter-enable
  bit is clear and the time hard lock or the time soft lock is set in the control value it
  read. The locks are looked at only inside the test of the enable bit and the violation
  flag: with the counter enabled and no violation a set lock does not refuse. When it
  refuses it has written no register.
\<close>

theorem set_time_permission:
  "(let dcr = readl_val e t DCR; dsr = readl_val e (snd (readl e DCR t)) DSR;
        r = dryice_rtc_set_time e 0 secs t
    in (map_option fst r = Some (- EPERM)) =
         (dsr AND DSR_SVF \<noteq> 0 \<or>
          dcr AND DCR_TCE = 0 \<and> (dcr AND DCR_TCHL \<noteq> 0 \<or> dcr AND DCR_TCSL \<noteq> 0))
       \<and> (map_option fst r = Some (- EPERM) \<longrightarrow>
            map_option (\<lambda>x. writes (added t (snd x))) r = Some []))"
proof -
  let ?dcr = "readl_val e t DCR"
  let ?dsr = "readl_val e (t @ [Readl DCR ?dcr]) DSR"
  show ?thesis
  proof (cases "set_time_lock_check ?dcr ?dsr")
    case None
    then have "map_option fst (dryice_rtc_set_time e 0 secs t) \<noteq> Some (- EPERM)"
      using set_time_not_eperm [of e t secs] by (auto simp: map_option_case split: option.splits)
    with None set_time_lock_check_iff [of ?dcr ?dsr] show ?thesis
      by (simp add: Let_def readl_def)
  next
    case (Some ps)
    from set_time_refused [OF this] Some set_time_lock_check_iff [of ?dcr ?dsr] show ?thesis
      by (simp add: Let_def readl_def)
  qed
qed

theorem set_time_permission_witness:
  "map_option fst (dryice_rtc_set_time (script_env DCR_TCE 0 [] (DSR_SVF OR DSR_WCF) 0) 0 5 []) =
     Some (- EPERM)
   \<and> map_option fst (dryice_rtc_set_time (script_env DCR_TCHL 0 [] DSR_WCF 0) 0 5 []) =
     Some (- EPERM)
   \<and> map_option fst (dryice_rtc_set_time (script_env DCR_TCSL 0 [] DSR_WCF 0) 0 5 []) =
     Some (- EPERM)
   \<and> map_option (\<lambda>x. writes (added [] (snd x)))
        (dryice_rtc_set_time (script_env DCR_TCHL 0 [] DSR_WCF 0) 0 5 []) = Some []"
  using set_time_permission [of "script_env DCR_TCE 0 [] (DSR_SVF OR DSR_WCF) 0" "[]" 5]
    set_time_permission [of "script_env DCR_TCHL 0 [] DSR_WCF 0" "[]" 5]
    set_time_permission [of "script_env DCR_TCSL 0 [] DSR_WCF 0" "[]" 5]
  by (simp add: Let_def readl_def script_env_sel script_readl_def reg_bits reg_offsets)

text \<open>
  The claim as stated fails: with the counter enabled and no violation, the time hard
  lock alone does not refuse. The three writes go ahead and the call returns 0.
\<close>

theorem set_time_hard_lock_counterexample:
  "(DCR_TCE OR DCR_TCHL) AND DCR_TCHL \<noteq> 0
   \<and> dryice_rtc_set_time (script_env (DCR_TCE OR DCR_TCHL) 0 [] DSR_WCF 0) 0 5 [] =
       Some (0, [Readl DCR (DCR_TCE OR DCR_TCHL), Readl DSR DSR_WCF,
                 Writel 0 DTCLR, GetTimeNs 0, Readl DSR DSR_WCF,
                 Writel 5 DTCMR, GetTimeNs 0, Readl DSR DSR_WCF,
                 Readl DCR (DCR_TCE OR DCR_TCHL),
                 Writel (DCR_TCE OR DCR_TCHL) DCR, GetTimeNs 0, Readl DSR DSR_WCF])"
  by (simp add: dryice_rtc_set_time_def set_time_lock_check_def di_write_wait_def Let_def
      io_defs reg_bits reg_offsets script_env_sel script_readl_def script_time_def loop_break)

lemma take_three:
  "take 3 [a, b, c] = [a, b, c]" "take 2 [a, b, c] = [a, b]" "take 1 [a, b, c] = [a]"
  by (simp_all add: numeral_3_eq_3 numeral_2_eq_2)

lemma set_time_shape:
  assumes "dryice_rtc_set_time e 0 secs t = Some (rc, t')"
    and "t' = t @ evs"
    and "writes evs = take k [(0, DTCLR), (secs, DTCMR), (rb OR DCR_TCE, DCR)] @ ack"
    and "1 \<le> k" and "k \<le> 3"
    and "rc = 0 \<longrightarrow> k = 3 \<and> ack = []"
    and "rc \<noteq> 0 \<longrightarrow> rc = - EIO \<and> (ack = [] \<or> ack = [(DSR_WEF, DSR)])"
    and "k = 3 \<Longrightarrow> reads_of DCR evs = [readl_val e t DCR, rb]"
  shows "\<exists>rc t' k ack dcr2.
           dryice_rtc_set_time e 0 secs t = Some (rc, t') \<and>
           writes (added t t') =
             take k [(0, DTCLR), (secs, DTCMR), (dcr2 OR DCR_TCE, DCR)] @ ack \<and>
           1 \<le> k \<and> k \<le> 3 \<and>
           (rc = 0 \<longrightarrow> k = 3 \<and> ack = []) \<and>
           (rc \<noteq> 0 \<longrightarrow> rc = - EIO \<and> (ack = [] \<or> ack = [(DSR_WEF, DSR)])) \<and>
           (k = 3 \<longrightarrow> reads_of DCR (added t t') = [readl_val e t DCR, dcr2])"
  using assms
  by (intro exI [of _ rc] exI [of _ t'] exI [of _ k] exI [of _ ack] exI [of _ rb]) simp

lemma set_time_write_list:
  assumes "responsive e"
    and "set_time_lock_check (readl_val e t DCR) (readl_val e (snd (readl e DCR t)) DSR) = None"
  shows "\<exists>rc t' k ack dcr2.
           dryice_rtc_set_time e 0 secs t = Some (rc, t') \<and>
           writes (added t t') =
             take k [(0, DTCLR), (secs, DTCMR), (dcr2 OR DCR_TCE, DCR)] @ ack \<and>
           1 \<le> k \<and> k \<le> 3 \<and>
           (rc = 0 \<longrightarrow> k = 3 \<and> ack = []) \<and>
           (rc \<noteq> 0 \<longrightarrow> rc = - EIO \<and> (ack = [] \<or> ack = [(DSR_WEF, DSR)])) \<and>
           (k = 3 \<longrightarrow> reads_of DCR (added t t') = [readl_val e t DCR, dcr2])"
proof -
  let ?dcr = "readl_val e t DCR"
  let ?dsr = "readl_val e (t @ [Readl DCR ?dcr]) DSR"
  let ?t2 = "t @ [Readl DCR ?dcr, Readl DSR ?dsr]"
  from assms(2) have perm: "set_time_lock_check ?dcr ?dsr = None"
    by (simp add: readl_def)
  note st = set_time_permitted [OF perm, of secs]
  obtain rc1 t3 where w1: "di_write_wait e 0 DTCLR ?t2 = Some (rc1, t3)"
    using di_write_wait_terminates [OF assms(1), of 0 DTCLR ?t2] by auto
  from di_write_wait_result [OF w1] obtain evs1 where
    e1: "t3 = ?t2 @ Writel 0 DTCLR # evs1" "reads_of DCR evs1 = []"
      "rc1 = 0 \<and> writes evs1 = [] \<or>
       rc1 = - EIO \<and> (writes evs1 = [] \<or> writes evs1 = [(DSR_WEF, DSR)])"
    by blast
  show ?thesis
  proof (cases "rc1 = 0")
    case False
    have r: "dryice_rtc_set_time e 0 secs t = Some (rc1, t3)"
      using w1 False by (simp add: st)
    show ?thesis
    proof (rule set_time_shape [OF r, where k = 1 and ack = "writes evs1" and rb = 0])
      show "t3 = t @ [Readl DCR ?dcr, Readl DSR ?dsr, Writel 0 DTCLR] @ evs1"
        using e1(1) by simp
    qed (use False e1 in \<open>auto simp: reg_offsets EIO_def\<close>)
  next
    case rc1: True
    obtain rc2 t4 where w2: "di_write_wait e secs DTCMR t3 = Some (rc2, t4)"
      using di_write_wait_terminates [OF assms(1), of secs DTCMR t3] by auto
    from di_write_wait_result [OF w2] obtain evs2 where
      e2: "t4 = t3 @ Writel secs DTCMR # evs2" "reads_of DCR evs2 = []"
        "rc2 = 0 \<and> writes evs2 = [] \<or>
         rc2 = - EIO \<and> (writes evs2 = [] \<or> writes evs2 = [(DSR_WEF, DSR)])"
      by blast
    from e1 rc1 have we1: "writes evs1 = []" by (auto simp: EIO_def)
    show ?thesis
    proof (cases "rc2 = 0")
      case False
      have r: "dryice_rtc_set_time e 0 secs t = Some (rc2, t4)"
        using w1 rc1 w2 False by (simp add: st)
      show ?thesis
      proof (rule set_time_shape [OF r, where k = 2 and ack = "writes evs2" and rb = 0])
        show "t4 = t @ [Readl DCR ?dcr, Readl DSR ?dsr, Writel 0 DTCLR] @ evs1 @
                Writel secs DTCMR # evs2"
          using e1(1) e2(1) by simp
      qed (use False e2 we1 in \<open>auto simp: reg_offsets take_three EIO_def\<close>)
    next
      case rc2: True
      let ?dcr2 = "readl_val e t4 DCR"
      let ?t5 = "t4 @ [Readl DCR ?dcr2]"
      obtain rc3 t6 where w3: "di_write_wait e (?dcr2 OR DCR_TCE) DCR ?t5 = Some (rc3, t6)"
        using di_write_wait_terminates [OF assms(1), of "?dcr2 OR DCR_TCE" DCR ?t5] by auto
      from di_write_wait_result [OF w3] obtain evs3 where
        e3: "t6 = ?t5 @ Writel (?dcr2 OR DCR_TCE) DCR # evs3" "reads_of DCR evs3 = []"
          "rc3 = 0 \<and> writes evs3 = [] \<or>
           rc3 = - EIO \<and> (writes evs3 = [] \<or> writes evs3 = [(DSR_WEF, DSR)])"
        by blast
      from e2 rc2 have we2: "writes evs2 = []" by (auto simp: EIO_def)
      have r: "dryice_rtc_set_time e 0 secs t = Some (rc3, t6)"
        using w1 rc1 w2 rc2 w3 by (simp add: st)
      show ?thesis
      proof (rule set_time_shape [OF r, where k = 3 and ack = "writes evs3" and rb = ?dcr2])
        show "t6 = t @ [Readl DCR ?dcr, Readl DSR ?dsr, Writel 0 DTCLR] @ evs1 @
                Writel secs DTCMR # evs2 @ Readl DCR ?dcr2 # Writel (?dcr2 OR DCR_TCE) DCR # evs3"
          using e1(1) e2(1) e3(1) by simp
        show "reads_of DCR ([Readl DCR ?dcr, Readl DSR ?dsr, Writel 0 DTCLR] @ evs1 @
                Writel secs DTCMR # evs2 @ Readl DCR ?dcr2 # Writel (?dcr2 OR DCR_TCE) DCR # evs3)
              = [readl_val e t DCR, ?dcr2]" if "3 = (3::nat)"
          using e1(2) e2(2) e3(2) by (simp add: reg_offsets)
      qed (use e3 we1 we2 in \<open>auto simp: reg_offsets take_three EIO_def\<close>)
    qed
  qed
qed


lemma responsive_script_flag:
  "dflt AND (DSR_WCF OR DSR_WEF) \<noteq> 0 \<Longrightarrow> responsive (script_env dcr sec [] dflt n)"
  unfolding responsive_def
  by (intro allI exI [of _ 0]) (simp add: poll_dsr_def script_env_sel script_readl_def)

lemma responsive_script_expired: "responsive (script_env dcr sec snaps dflt 0)"
  unfolding responsive_def
  by (intro allI exI [of _ 0]) (simp add: poll_expired_def script_env_sel script_timeout_def)

lemma confirmed_writeI:
  assumes "di_write_wait e val reg t = Some (rc, t')"
  shows "confirmed_write e val reg t rc t'"
proof -
  from di_write_wait_result [OF assms] obtain evs where
    e: "t' = t @ Writel val reg # evs" "reads_of DCR evs = []"
      "rc = 0 \<and> writes evs = [] \<or>
       rc = - EIO \<and> (writes evs = [] \<or> writes evs = [(DSR_WEF, DSR)])"
    by blast
  show ?thesis
  proof (cases "rc = 0")
    case True
    with assms have "\<exists>h d. t' = h @ [Readl DSR d] \<and> d = readl_val e h DSR \<and>
        d AND DSR_WCF \<noteq> 0 \<and> d AND DSR_WEF = 0"
      by (intro di_write_wait_success [of e val reg t t']) simp
    moreover from True e(3) have "writes evs = []" by (auto simp: EIO_def)
    ultimately show ?thesis
      unfolding confirmed_write_def using True e(1,2) assms by blast
  next
    case False
    with e assms show ?thesis
      unfolding confirmed_write_def by blast
  qed
qed

lemma confirmed_write_ex:
  "responsive e \<Longrightarrow> \<exists>rc t'. confirmed_write e val reg t rc t'"
  using di_write_wait_terminates [of e val reg t] confirmed_writeI [of e val reg t]
  by (cases "di_write_wait e val reg t") auto

text \<open>
  C7. When the permission test passes, \<^verbatim>\<open>dryice_rtc_set_time\<close> is three confirmed writes
  (\<^verbatim>\<open>di_write_wait\<close>) in a row: zero to \<^verbatim>\<open>DTCLR\<close>, the seconds to \<^verbatim>\<open>DTCMR\<close>, and, after
  reading the control register again, the value read with the enable bit set to \<^verbatim>\<open>DCR\<close>.
  The first of them that returns nonzero ends the call: its return code and its trace are
  the result, so nothing is written after it and nothing written before it is written
  again. In a responsive environment each confirmed write returns, a successful one
  having seen the write-complete flag without the write-error flag in its last status
  read, and the registers written are the first \<open>k\<close> of the three, all three on success,
  followed on failure at most by the acknowledge of the write error that the failed
  confirmed write itself makes.
\<close>

theorem set_time_three_writes:
  assumes "set_time_lock_check (readl_val e t DCR) (readl_val e (snd (readl e DCR t)) DSR) = None"
  shows
    "(let t2 = snd (readl e DSR (snd (readl e DCR t)));
          r = dryice_rtc_set_time e 0 secs t
      in r = (case di_write_wait e 0 DTCLR t2 of
                None \<Rightarrow> None
              | Some (rc1, t3) \<Rightarrow>
                 if rc1 \<noteq> 0 then Some (rc1, t3)
                 else (case di_write_wait e secs DTCMR t3 of
                         None \<Rightarrow> None
                       | Some (rc2, t4) \<Rightarrow>
                          if rc2 \<noteq> 0 then Some (rc2, t4)
                          else di_write_wait e (readl_val e t4 DCR OR DCR_TCE) DCR
                                 (snd (readl e DCR t4))))
       \<and> (responsive e \<longrightarrow>
            (\<exists>rc1 t3. confirmed_write e 0 DTCLR t2 rc1 t3 \<and>
               (rc1 \<noteq> 0 \<longrightarrow> r = Some (rc1, t3)) \<and>
               (rc1 = 0 \<longrightarrow>
                  (\<exists>rc2 t4. confirmed_write e secs DTCMR t3 rc2 t4 \<and>
                     (rc2 \<noteq> 0 \<longrightarrow> r = Some (rc2, t4)) \<and>
                     (rc2 = 0 \<longrightarrow>
                        (\<exists>rc3 t6. confirmed_write e (readl_val e t4 DCR OR DCR_TCE) DCR
                                     (snd (readl e DCR t4)) rc3 t6 \<and>
                                   r = Some (rc3, t6)))))))
       \<and> (responsive e \<longrightarrow>
            (\<exists>rc t' k ack dcr2.
               r = Some (rc, t') \<and>
               writes (added t t') =
                 take k [(0, DTCLR), (secs, DTCMR), (dcr2 OR DCR_TCE, DCR)] @ ack \<and>
               1 \<le> k \<and> k \<le> 3 \<and>
               (rc = 0 \<longrightarrow> k = 3 \<and> ack = []) \<and>
               (rc \<noteq> 0 \<longrightarrow> rc = - EIO \<and> (ack = [] \<or> ack = [(DSR_WEF, DSR)])) \<and>
               (k = 3 \<longrightarrow> reads_of DCR (added t t') = [readl_val e t DCR, dcr2]))))"
proof -
  let ?dcr = "readl_val e t DCR"
  let ?dsr = "readl_val e (t @ [Readl DCR ?dcr]) DSR"
  let ?t2 = "t @ [Readl DCR ?dcr, Readl DSR ?dsr]"
  let ?r = "dryice_rtc_set_time e 0 secs t"
  from assms have perm: "set_time_lock_check ?dcr ?dsr = None"
    by (simp add: readl_def)
  have t2: "snd (readl e DSR (snd (readl e DCR t))) = ?t2"
    by (simp add: readl_def)
  have a: "?r = (case di_write_wait e 0 DTCLR ?t2 of
                None \<Rightarrow> None
              | Some (rc1, t3) \<Rightarrow>
                 if rc1 \<noteq> 0 then Some (rc1, t3)
                 else (case di_write_wait e secs DTCMR t3 of
                         None \<Rightarrow> None
                       | Some (rc2, t4) \<Rightarrow>
                          if rc2 \<noteq> 0 then Some (rc2, t4)
                          else di_write_wait e (readl_val e t4 DCR OR DCR_TCE) DCR
                                 (snd (readl e DCR t4))))"
    unfolding set_time_permitted [OF perm]
    by (auto simp: readl_def split: option.splits)
  have b: "\<exists>rc1 t3. confirmed_write e 0 DTCLR ?t2 rc1 t3 \<and>
               (rc1 \<noteq> 0 \<longrightarrow> ?r = Some (rc1, t3)) \<and>
               (rc1 = 0 \<longrightarrow>
                  (\<exists>rc2 t4. confirmed_write e secs DTCMR t3 rc2 t4 \<and>
                     (rc2 \<noteq> 0 \<longrightarrow> ?r = Some (rc2, t4)) \<and>
                     (rc2 = 0 \<longrightarrow>
                        (\<exists>rc3 t6. confirmed_write e (readl_val e t4 DCR OR DCR_TCE) DCR
                                     (snd (readl e DCR t4)) rc3 t6 \<and>
                                   ?r = Some (rc3, t6)))))"
    if resp: "responsive e"
  proof -
    obtain rc1 t3 where c1: "confirmed_write e 0 DTCLR ?t2 rc1 t3"
      using confirmed_write_ex [OF resp] by blast
    then have w1: "di_write_wait e 0 DTCLR ?t2 = Some (rc1, t3)"
      by (simp add: confirmed_write_def)
    obtain rc2 t4 where c2: "confirmed_write e secs DTCMR t3 rc2 t4"
      using confirmed_write_ex [OF resp] by blast
    then have w2: "di_write_wait e secs DTCMR t3 = Some (rc2, t4)"
      by (simp add: confirmed_write_def)
    obtain rc3 t6 where c3: "confirmed_write e (readl_val e t4 DCR OR DCR_TCE) DCR
                                     (snd (readl e DCR t4)) rc3 t6"
      using confirmed_write_ex [OF resp] by blast
    then have w3: "di_write_wait e (readl_val e t4 DCR OR DCR_TCE) DCR
                                     (snd (readl e DCR t4)) = Some (rc3, t6)"
      by (simp add: confirmed_write_def)
    have "rc1 \<noteq> 0 \<longrightarrow> ?r = Some (rc1, t3)"
      unfolding a w1 by simp
    moreover have "rc1 = 0 \<and> rc2 \<noteq> 0 \<longrightarrow> ?r = Some (rc2, t4)"
      unfolding a w1 by (simp add: w2)
    moreover have "rc1 = 0 \<and> rc2 = 0 \<longrightarrow> ?r = Some (rc3, t6)"
      unfolding a w1 by (simp add: w2 w3)
    ultimately show ?thesis
      using c1 c2 c3 by blast
  qed
  have c: "\<exists>rc t' k ack dcr2.
               ?r = Some (rc, t') \<and>
               writes (added t t') =
                 take k [(0, DTCLR), (secs, DTCMR), (dcr2 OR DCR_TCE, DCR)] @ ack \<and>
               1 \<le> k \<and> k \<le> 3 \<and>
               (rc = 0 \<longrightarrow> k = 3 \<and> ack = []) \<and>
               (rc \<noteq> 0 \<longrightarrow> rc = - EIO \<and> (ack = [] \<or> ack = [(DSR_WEF, DSR)])) \<and>
               (k = 3 \<longrightarrow> reads_of DCR (added t t') = [readl_val e t DCR, dcr2])"
    if resp: "responsive e"
    using set_time_write_list [OF resp assms] .
  show ?thesis
    unfolding Let_def t2 using a b c by blast
qed


theorem set_time_three_writes_witness:
  "responsive (script_env DCR_TCE 0 [] DSR_WCF 0)
   \<and> set_time_lock_check (readl_val (script_env DCR_TCE 0 [] DSR_WCF 0) [] DCR)
        (readl_val (script_env DCR_TCE 0 [] DSR_WCF 0)
           (snd (readl (script_env DCR_TCE 0 [] DSR_WCF 0) DCR [])) DSR) = None
   \<and> dryice_rtc_set_time (script_env DCR_TCE 0 [] DSR_WCF 0) 0 5 [] =
       Some (0, [Readl DCR DCR_TCE, Readl DSR DSR_WCF,
                 Writel 0 DTCLR, GetTimeNs 0, Readl DSR DSR_WCF,
                 Writel 5 DTCMR, GetTimeNs 0, Readl DSR DSR_WCF,
                 Readl DCR DCR_TCE,
                 Writel DCR_TCE DCR, GetTimeNs 0, Readl DSR DSR_WCF])
   \<and> responsive (script_env DCR_TCE 0 [0, DSR_WCF] 0 0)
   \<and> dryice_rtc_set_time (script_env DCR_TCE 0 [0, DSR_WCF] 0 0) 0 5 [] =
       Some (- EIO, [Readl DCR DCR_TCE, Readl DSR 0,
                     Writel 0 DTCLR, GetTimeNs 0, Readl DSR DSR_WCF,
                     Writel 5 DTCMR, GetTimeNs 0, Readl DSR 0, IsTimeout 0 MSECOND True])"
proof -
  have r1: "responsive (script_env DCR_TCE 0 [] DSR_WCF 0)"
    by (rule responsive_script_flag) (simp add: reg_bits)
  have r2: "responsive (script_env DCR_TCE 0 [0, DSR_WCF] 0 0)"
    by (rule responsive_script_expired)
  have l1: "set_time_lock_check (readl_val (script_env DCR_TCE 0 [] DSR_WCF 0) [] DCR)
        (readl_val (script_env DCR_TCE 0 [] DSR_WCF 0)
           (snd (readl (script_env DCR_TCE 0 [] DSR_WCF 0) DCR [])) DSR) = None"
    by (simp add: set_time_lock_check_def readl_def script_env_sel script_readl_def reg_bits
        reg_offsets)
  have l2: "set_time_lock_check (readl_val (script_env DCR_TCE 0 [0, DSR_WCF] 0 0) [] DCR)
        (readl_val (script_env DCR_TCE 0 [0, DSR_WCF] 0 0)
           (snd (readl (script_env DCR_TCE 0 [0, DSR_WCF] 0 0) DCR [])) DSR) = None"
    by (simp add: set_time_lock_check_def readl_def script_env_sel script_readl_def reg_bits
        reg_offsets)
  have w: "di_write_wait e val reg t =
      (case di_write_wait_loop e (time_ns e (t @ [Writel val reg]))
              (t @ [Writel val reg, GetTimeNs (time_ns e (t @ [Writel val reg]))]) of
         None \<Rightarrow> None
       | Some (None, t2) \<Rightarrow> Some (- EIO, t2)
       | Some (Some dsr, t2) \<Rightarrow>
           (if dsr AND DSR_WEF \<noteq> 0 then Some (- EIO, clear_write_error e t2)
            else Some (0, t2)))" for e val reg t
    by (simp add: di_write_wait_def Let_def io_defs)
  from set_time_three_writes [OF l1, of 5] have
    a1: "dryice_rtc_set_time (script_env DCR_TCE 0 [] DSR_WCF 0) 0 5 [] =
       Some (0, [Readl DCR DCR_TCE, Readl DSR DSR_WCF,
                 Writel 0 DTCLR, GetTimeNs 0, Readl DSR DSR_WCF,
                 Writel 5 DTCMR, GetTimeNs 0, Readl DSR DSR_WCF,
                 Readl DCR DCR_TCE,
                 Writel DCR_TCE DCR, GetTimeNs 0, Readl DSR DSR_WCF])"
    by (simp add: Let_def w readl_def reg_bits reg_offsets script_env_sel script_readl_def
        script_time_def script_timeout_def loop_break loop_expire errno_defs MSECOND_def)
  from set_time_three_writes [OF l2, of 5] have
    a2: "dryice_rtc_set_time (script_env DCR_TCE 0 [0, DSR_WCF] 0 0) 0 5 [] =
       Some (- EIO, [Readl DCR DCR_TCE, Readl DSR 0,
                     Writel 0 DTCLR, GetTimeNs 0, Readl DSR DSR_WCF,
                     Writel 5 DTCMR, GetTimeNs 0, Readl DSR 0, IsTimeout 0 MSECOND True])"
    by (simp add: Let_def w readl_def reg_bits reg_offsets script_env_sel script_readl_def
        script_time_def script_timeout_def loop_break loop_expire errno_defs MSECOND_def)
  from r1 r2 l1 a1 a2 show ?thesis by blast
qed

subsection \<open>Invalid-state recovery and the tamper lock\<close>

lemma last_write_append:
  "last_write r (xs @ ys) =
     (case last_write r ys of Some v \<Rightarrow> Some v | None \<Rightarrow> last_write r xs)"
  by (induction r xs rule: last_write.induct) (simp_all split: option.splits)

lemma last_write_no_writes: "writes t = [] \<Longrightarrow> last_write r t = None"
  by (induction r t rule: last_write.induct) simp_all

lemma invalid_state_cases:
  "\<exists>sec lg dcr d2.
     writes lg = [] \<and> (\<forall>r. reads_of r lg = [])
     \<and> dcr = readl_val e
              (t @ [Writel 0 DTCR, Udelay 130, Writel DCR_TDCSL DCR, Udelay 130, Readl DTCMR sec] @ lg)
              DCR
     \<and> di_handle_invalid_state e dsr t =
        (case tc_lock_check dcr of
           Some ps \<Rightarrow>
             (- ENODEV,
              t @ [Writel 0 DTCR, Udelay 130, Writel DCR_TDCSL DCR, Udelay 130, Readl DTCMR sec] @
              lg @ [Readl DCR dcr, Log LOG_EMERG what_fmt [ArgStr ps]])
         | None \<Rightarrow>
             (0,
              t @ [Writel 0 DTCR, Udelay 130, Writel DCR_TDCSL DCR, Udelay 130, Readl DTCMR sec] @
              lg @ [Readl DCR dcr, Writel DSR_NVF DSR, Udelay 130, Writel DSR_TCO DSR, Udelay 130,
                    Writel (dcr OR DCR_TCE) DCR, Udelay 130, Writel sec DTCMR, Udelay 130,
                    Readl DSR d2, Writel DCAMR_UNSET DCAMR, Udelay 130,
                    Writel 0 DCALR, Udelay 130] @
              (if d2 AND DSR_CAF \<noteq> 0 then [Writel DSR_CAF DSR, Udelay 130] else [])))"
proof -
  define h1 where "h1 = t @ [Writel 0 DTCR, Udelay 130, Writel DCR_TDCSL DCR, Udelay 130]"
  define sec where "sec = readl_val e h1 DTCMR"
  define lg where "lg = (if sec \<noteq> 0
      then [Log LOG_WARNING ''The security violation has happened at %u seconds'' [ArgU32 sec]]
      else [])"
  define dcr where "dcr = readl_val e (h1 @ Readl DTCMR sec # lg) DCR"
  define h4 where "h4 = h1 @ Readl DTCMR sec # lg @
     [Readl DCR dcr, Writel DSR_NVF DSR, Udelay 130, Writel DSR_TCO DSR, Udelay 130,
      Writel (dcr OR DCR_TCE) DCR, Udelay 130, Writel sec DTCMR, Udelay 130]"
  define d2 where "d2 = readl_val e h4 DSR"
  have eq: "di_handle_invalid_state e dsr t =
      (case tc_lock_check dcr of
         Some ps \<Rightarrow> (- ENODEV, h1 @ Readl DTCMR sec # lg @ [Readl DCR dcr, Log LOG_EMERG what_fmt [ArgStr ps]])
       | None \<Rightarrow> di_handle_valid_state d2 (h4 @ [Readl DSR d2]))"
    unfolding di_handle_invalid_state_def Let_def readl_def di_write_busy_wait_def udelay_def
      writel_def dev_log_def di_what_is_to_be_done_def split_conv
    unfolding d2_def h4_def dcr_def lg_def sec_def h1_def
    by (simp split: option.splits)
  have lg: "writes lg = []" "\<forall>r. reads_of r lg = []"
    by (simp_all add: lg_def)
  show ?thesis
    apply (rule exI [of _ sec], rule exI [of _ lg], rule exI [of _ dcr], rule exI [of _ d2])
    apply (intro conjI lg)
    subgoal by (simp add: dcr_def h1_def)
    subgoal unfolding eq di_handle_valid_state_trace h4_def h1_def
      by (simp split: option.splits)
    done
qed

lemma bank_after_no_writes: "last_write r h = None \<Longrightarrow> r \<noteq> DSR \<Longrightarrow> bank_after b h r = b r"
proof (induction r h arbitrary: b rule: last_write.induct)
  case (2 r val reg t)
  then show ?case by (auto split: option.splits if_splits)
qed simp_all

lemma bank_after_last_write:
  "last_write r h = Some v \<Longrightarrow> r \<noteq> DSR \<Longrightarrow> bank_after b h r = v"
proof (induction r h arbitrary: b rule: last_write.induct)
  case (2 r val reg t)
  then show ?case
    by (auto split: option.splits if_splits simp: bank_after_no_writes)
qed simp_all

lemma tce_stored_bank_env: "tce_stored (bank_env b n)"
  by (simp add: tce_stored_def bank_env_def bank_after_last_write reg_offsets)

lemma invalid_state_exact:
  "di_handle_invalid_state e dsr t =
    (let h1 = t @ [Writel 0 DTCR, Udelay 130, Writel DCR_TDCSL DCR, Udelay 130];
         sec = readl_val e h1 DTCMR;
         h2 = h1 @ Readl DTCMR sec #
                (if sec \<noteq> 0
                 then [Log LOG_WARNING ''The security violation has happened at %u seconds''
                         [ArgU32 sec]]
                 else []);
         dcr = readl_val e h2 DCR;
         h3 = h2 @ [Readl DCR dcr];
         h4 = h3 @ [Writel DSR_NVF DSR, Udelay 130, Writel DSR_TCO DSR, Udelay 130,
                    Writel (dcr OR DCR_TCE) DCR, Udelay 130, Writel sec DTCMR, Udelay 130];
         d2 = readl_val e h4 DSR
     in case tc_lock_check dcr of
          Some ps \<Rightarrow> (- ENODEV, h3 @ [Log LOG_EMERG what_fmt [ArgStr ps]])
        | None \<Rightarrow>
            (0, h4 @ [Readl DSR d2, Writel DCAMR_UNSET DCAMR, Udelay 130,
                      Writel 0 DCALR, Udelay 130] @
                (if d2 AND DSR_CAF \<noteq> 0 then [Writel DSR_CAF DSR, Udelay 130] else [])))"
  unfolding di_handle_invalid_state_def di_handle_valid_state_trace Let_def readl_def
    di_write_busy_wait_def udelay_def writel_def dev_log_def di_what_is_to_be_done_def split_conv
  by (simp split: option.splits)

text \<open>
  C10, as the code has it. \<^verbatim>\<open>di_handle_invalid_state\<close> starts with the write of zero to
  the tamper configuration and the write of exactly the tamper soft-lock bit to the
  control register, before it has read anything: an overwrite of the whole register, in
  which the enable bits of the time counter and of the monotonic counter are zero. It
  then reads the seconds and, once, the control register, and tests the enable bit in the
  value read back. That value has the bit clear where the unit stores the bit as written;
  the code does not rely on it. When the lock test passes, the last write to the control
  register is the value read back with the enable bit set, followed only by the write of
  the seconds and the alarm setup.
\<close>

theorem invalid_state_overwrites_control:
  "(let h1 = t @ [Writel 0 DTCR, Udelay 130, Writel DCR_TDCSL DCR, Udelay 130];
        sec = readl_val e h1 DTCMR;
        h2 = h1 @ Readl DTCMR sec #
               (if sec \<noteq> 0
                then [Log LOG_WARNING ''The security violation has happened at %u seconds''
                        [ArgU32 sec]]
                else []);
        dcr = readl_val e h2 DCR;
        h3 = h2 @ [Readl DCR dcr];
        h4 = h3 @ [Writel DSR_NVF DSR, Udelay 130, Writel DSR_TCO DSR, Udelay 130,
                   Writel (dcr OR DCR_TCE) DCR, Udelay 130, Writel sec DTCMR, Udelay 130];
        d2 = readl_val e h4 DSR;
        r = di_handle_invalid_state e dsr t
    in DCR_TDCSL AND DCR_TCE = 0 \<and> DCR_TDCSL AND DCR_MCE = 0
       \<and> r = (case tc_lock_check dcr of
                 Some ps \<Rightarrow> (- ENODEV, h3 @ [Log LOG_EMERG what_fmt [ArgStr ps]])
               | None \<Rightarrow>
                  (0, h4 @ [Readl DSR d2, Writel DCAMR_UNSET DCAMR, Udelay 130,
                            Writel 0 DCALR, Udelay 130] @
                      (if d2 AND DSR_CAF \<noteq> 0 then [Writel DSR_CAF DSR, Udelay 130] else [])))
       \<and> reads_of DCR (added t (snd r)) = [dcr]
       \<and> writes (added t (snd r)) =
           (0, DTCR) # (DCR_TDCSL, DCR) #
           (case tc_lock_check dcr of
              Some ps \<Rightarrow> []
            | None \<Rightarrow> [(DSR_NVF, DSR), (DSR_TCO, DSR), (dcr OR DCR_TCE, DCR), (sec, DTCMR),
                       (DCAMR_UNSET, DCAMR), (0, DCALR)] @
                      (if d2 AND DSR_CAF \<noteq> 0 then [(DSR_CAF, DSR)] else []))
       \<and> (tce_stored e \<longrightarrow> dcr AND DCR_TCE = 0))"
proof -
  define h1 where "h1 = t @ [Writel 0 DTCR, Udelay 130, Writel DCR_TDCSL DCR, Udelay 130]"
  define sec where "sec = readl_val e h1 DTCMR"
  define lg where "lg = (if sec \<noteq> 0
      then [Log LOG_WARNING ''The security violation has happened at %u seconds'' [ArgU32 sec]]
      else [])"
  define dcr where "dcr = readl_val e (h1 @ Readl DTCMR sec # lg) DCR"
  define h4 where "h4 = (h1 @ Readl DTCMR sec # lg) @ [Readl DCR dcr] @
     [Writel DSR_NVF DSR, Udelay 130, Writel DSR_TCO DSR, Udelay 130,
      Writel (dcr OR DCR_TCE) DCR, Udelay 130, Writel sec DTCMR, Udelay 130]"
  define d2 where "d2 = readl_val e h4 DSR"
  define caf where "caf = (if d2 AND DSR_CAF \<noteq> 0 then [Writel DSR_CAF DSR, Udelay 130] else [])"
  have eq: "di_handle_invalid_state e dsr t =
      (case tc_lock_check dcr of
         Some ps \<Rightarrow> (- ENODEV, (h1 @ Readl DTCMR sec # lg) @ [Readl DCR dcr] @
                         [Log LOG_EMERG what_fmt [ArgStr ps]])
       | None \<Rightarrow> (0, h4 @ [Readl DSR d2, Writel DCAMR_UNSET DCAMR, Udelay 130,
                            Writel 0 DCALR, Udelay 130] @ caf))"
    unfolding invalid_state_exact Let_def caf_def d2_def h4_def dcr_def lg_def sec_def h1_def
    by (simp split: option.splits)
  have lg: "writes lg = []" "reads_of r lg = []" for r
    by (simp_all add: lg_def)
  have lw: "last_write DCR (h1 @ Readl DTCMR sec # lg) = Some DCR_TDCSL"
    using lg(1) by (simp add: h1_def last_write_append last_write_no_writes reg_offsets)
  have tce: "dcr AND DCR_TCE = 0" if "tce_stored e"
    using that lw unfolding tce_stored_def dcr_def by (auto simp: reg_bits)
  have bits: "DCR_TDCSL AND DCR_TCE = 0" "DCR_TDCSL AND DCR_MCE = 0"
    by (simp_all add: reg_bits)
  have rd: "reads_of DCR (added t (snd (di_handle_invalid_state e dsr t))) = [dcr]"
    unfolding eq by (simp add: h4_def h1_def caf_def lg reg_offsets split: option.splits)
  have wr: "writes (added t (snd (di_handle_invalid_state e dsr t))) =
           (0, DTCR) # (DCR_TDCSL, DCR) #
           (case tc_lock_check dcr of
              Some ps \<Rightarrow> []
            | None \<Rightarrow> [(DSR_NVF, DSR), (DSR_TCO, DSR), (dcr OR DCR_TCE, DCR), (sec, DTCMR),
                       (DCAMR_UNSET, DCAMR), (0, DCALR)] @
                      (if d2 AND DSR_CAF \<noteq> 0 then [(DSR_CAF, DSR)] else []))"
    unfolding eq by (simp add: h4_def h1_def caf_def lg split: option.splits)
  have ex: "di_handle_invalid_state e dsr t =
      (case tc_lock_check dcr of
         Some ps \<Rightarrow> (- ENODEV, (h1 @ Readl DTCMR sec # lg) @ [Readl DCR dcr] @
                         [Log LOG_EMERG what_fmt [ArgStr ps]])
       | None \<Rightarrow> (0, h4 @ [Readl DSR d2, Writel DCAMR_UNSET DCAMR, Udelay 130,
                            Writel 0 DCALR, Udelay 130] @
                      (if d2 AND DSR_CAF \<noteq> 0 then [Writel DSR_CAF DSR, Udelay 130] else [])))"
    unfolding eq caf_def ..
  show ?thesis
    unfolding Let_def
    apply (fold h1_def)
    apply (fold sec_def)
    apply (fold lg_def)
    apply (fold dcr_def)
    using bits ex rd wr tce
    apply (simp add: h4_def d2_def split: option.splits)
    done
qed

theorem invalid_state_overwrites_control_witness:
  "tce_stored (bank_env (script_readl (DCR_TCE OR DCR_MCE) 77 [] DSR_NVF []) 0)
   \<and> readl_val (bank_env (script_readl (DCR_TCE OR DCR_MCE) 77 [] DSR_NVF []) 0) [] DCR =
       DCR_TCE OR DCR_MCE
   \<and> reads_of DCR (snd (di_handle_invalid_state
        (bank_env (script_readl (DCR_TCE OR DCR_MCE) 77 [] DSR_NVF []) 0) DSR_NVF [])) = [DCR_TDCSL]
   \<and> writes (snd (di_handle_invalid_state
        (bank_env (script_readl (DCR_TCE OR DCR_MCE) 77 [] DSR_NVF []) 0) DSR_NVF [])) =
       [(0, DTCR), (DCR_TDCSL, DCR), (DSR_NVF, DSR), (DSR_TCO, DSR),
        (DCR_TDCSL OR DCR_TCE, DCR), (77, DTCMR), (DCAMR_UNSET, DCAMR), (0, DCALR)]"
  using tce_stored_bank_env [of "script_readl (DCR_TCE OR DCR_MCE) 77 [] DSR_NVF []" 0]
    invalid_state_overwrites_control
      [of "[]" "bank_env (script_readl (DCR_TCE OR DCR_MCE) 77 [] DSR_NVF []) 0" DSR_NVF]
  by (simp add: di_handle_invalid_state_def di_handle_valid_state_trace tc_lock_check_def
      Let_def io_defs bank_env_def script_readl_def reg_bits reg_offsets)

text \<open>
  The claim as stated fails: a unit that keeps the enable bit set (here with the time hard
  lock) shows it set in the read after the overwrite, the lock test is skipped and the
  recovery goes on.
\<close>

theorem invalid_state_tce_counterexample:
  "readl_val (script_env (DCR_TCE OR DCR_TCHL) 0 [] DSR_NVF 0) [] DCR = DCR_TCE OR DCR_TCHL
   \<and> writes (snd (di_handle_invalid_state (script_env (DCR_TCE OR DCR_TCHL) 0 [] DSR_NVF 0)
        DSR_NVF [])) =
       [(0, DTCR), (DCR_TDCSL, DCR), (DSR_NVF, DSR), (DSR_TCO, DSR),
        (DCR_TCE OR DCR_TCHL, DCR), (0, DTCMR), (DCAMR_UNSET, DCAMR), (0, DCALR)]
   \<and> reads_of DCR (snd (di_handle_invalid_state
        (script_env (DCR_TCE OR DCR_TCHL) 0 [] DSR_NVF 0) DSR_NVF [])) = [DCR_TCE OR DCR_TCHL]
   \<and> (DCR_TCE OR DCR_TCHL) AND DCR_TCE \<noteq> 0"
  by (simp add: di_handle_invalid_state_def di_handle_valid_state_trace tc_lock_check_def
      Let_def io_defs script_defs reg_bits reg_offsets)

lemma tdc_locked:
  assumes "dsr AND DSR_TAMPER \<noteq> 0" and "readl_val e t DCR AND DCR_TDCHL \<noteq> 0"
  shows "di_handle_invalid_and_failure_state e dsr t =
           (- ENODEV, t @ [Readl DCR (readl_val e t DCR), Log LOG_EMERG what_fmt [ArgStr ''battery'']])"
  using assms
  by (simp add: di_handle_invalid_and_failure_state_def tdc_lock_check_def Let_def io_defs)

lemma invalid_state_extends:
  "\<exists>evs. snd (di_handle_invalid_state e dsr t) = t @ Writel 0 DTCR # evs"
  using invalid_state_cases [of e t dsr] by (auto split: option.splits)

lemma tdc_unchecked:
  assumes "dsr AND DSR_TAMPER = 0"
  shows "\<exists>evs. snd (di_handle_invalid_and_failure_state e dsr t) = t @ Writel 0 DTCR # evs"
proof -
  define h3 where "h3 = t @ [Writel 0 DTCR, Udelay 130, Writel (dsr AND DSR_TAMPER) DSR, Udelay 130]"
  define d1 where "d1 = readl_val e h3 DSR"
  define lg where "lg = (if d1 AND NOT DSR_KEEP \<noteq> 0
      then [Log LOG_WARNING ''There are still some sources of pain in DSR: %08x!''
              [ArgU32 (d1 AND NOT DSR_KEEP)]]
      else [])"
  define h6 where "h6 = h3 @ Readl DSR d1 # lg @ [Writel DSR_SVF DSR, Udelay 130]"
  define d2 where "d2 = readl_val e h6 DSR"
  have eq: "di_handle_invalid_and_failure_state e dsr t =
      (if d2 AND DSR_SVF \<noteq> 0
       then (- ENODEV, h6 @ [Readl DSR d2,
               Log LOG_CRIT ''Cannot clear the security violation flag. We are ending up in an endless loop!'' [],
               Log LOG_EMERG what_fmt [ArgStr ''battery'']])
       else di_handle_invalid_state e d2 (h6 @ [Readl DSR d2]))"
    using assms
    unfolding di_handle_invalid_and_failure_state_def tdc_lock_check_def Let_def readl_def
      di_write_busy_wait_def udelay_def writel_def dev_log_def di_what_is_to_be_done_def split_conv
    unfolding d2_def h6_def lg_def d1_def h3_def
    by simp
  show ?thesis
  proof (cases "d2 AND DSR_SVF \<noteq> 0")
    case True
    then show ?thesis by (simp add: eq h6_def h3_def)
  next
    case False
    obtain evs where "snd (di_handle_invalid_state e d2 (h6 @ [Readl DSR d2])) =
        (h6 @ [Readl DSR d2]) @ Writel 0 DTCR # evs"
      using invalid_state_extends by blast
    with False show ?thesis by (simp add: eq h6_def h3_def)
  qed
qed

text \<open>
  C3, as the code has it. \<^verbatim>\<open>di_handle_invalid_and_failure_state\<close> consults the tamper
  hard lock only when a tamper-class bit is set in the status value it was given: then,
  with the lock set, it returns \<^verbatim>\<open>-ENODEV\<close> after the one read of the control register
  and writes nothing. Without such a bit its first access is the write of zero to the
  tamper configuration register, and so is the first access of
  \<^verbatim>\<open>di_handle_invalid_state\<close>, whatever the control register holds.
\<close>

theorem tamper_config_write_guard:
  "(dsr AND DSR_TAMPER \<noteq> 0 \<and> readl_val e t DCR AND DCR_TDCHL \<noteq> 0 \<longrightarrow>
      di_handle_invalid_and_failure_state e dsr t =
        (- ENODEV, t @ [Readl DCR (readl_val e t DCR),
                        Log LOG_EMERG what_fmt [ArgStr ''battery'']]))
   \<and> (dsr AND DSR_TAMPER = 0 \<longrightarrow>
        (\<exists>evs. snd (di_handle_invalid_and_failure_state e dsr t) = t @ Writel 0 DTCR # evs))
   \<and> (\<exists>evs. snd (di_handle_invalid_state e dsr t) = t @ Writel 0 DTCR # evs)"
  using tdc_locked [of dsr e t] tdc_unchecked [of dsr e t] invalid_state_extends [of e dsr t]
  by blast

theorem tamper_config_write_guard_witness:
  "DSR_WTD AND DSR_TAMPER \<noteq> 0
   \<and> readl_val (script_env DCR_TDCHL 0 [] DSR_NVF 0) [] DCR AND DCR_TDCHL \<noteq> 0
   \<and> writes (snd (di_handle_invalid_and_failure_state (script_env DCR_TDCHL 0 [] DSR_NVF 0)
        (DSR_NVF OR DSR_SVF OR DSR_WTD) [])) = []
   \<and> (DSR_NVF OR DSR_SVF) AND DSR_TAMPER = 0
   \<and> hd (snd (di_handle_invalid_and_failure_state (script_env DCR_TDCHL 0 [] DSR_NVF 0)
        (DSR_NVF OR DSR_SVF) [])) = Writel 0 DTCR"
  using tamper_config_write_guard [of "DSR_NVF OR DSR_SVF OR DSR_WTD" "script_env DCR_TDCHL 0 [] DSR_NVF 0" "[]"]
    tamper_config_write_guard [of "DSR_NVF OR DSR_SVF" "script_env DCR_TDCHL 0 [] DSR_NVF 0" "[]"]
  by (auto simp: script_defs reg_bits reg_offsets)

text \<open>
  The claim as stated fails: with the tamper hard lock set in every read of the control
  register, both procedures write the tamper configuration register.
\<close>

theorem hard_locked_tamper_write_counterexample:
  "readl_val (script_env DCR_TDCHL 0 [] DSR_NVF 0) [] DCR AND DCR_TDCHL \<noteq> 0
   \<and> (0, DTCR) \<in> set (writes (snd (di_handle_invalid_state
         (script_env DCR_TDCHL 0 [] DSR_NVF 0) DSR_NVF [])))
   \<and> (0, DTCR) \<in> set (writes (snd (di_handle_invalid_and_failure_state
         (script_env DCR_TDCHL 0 [] DSR_NVF 0) (DSR_NVF OR DSR_SVF) [])))"
  by (simp add: di_handle_invalid_and_failure_state_def tdc_lock_check_def
      di_handle_invalid_state_def di_handle_valid_state_trace tc_lock_check_def
      Let_def io_defs script_defs reg_bits reg_offsets)

end
